theory Spec2Isabelle
  imports Complex_Main "HOL-Library.AList"
begin

section \<open>DriveSync Tube: the room coordination service\<close>

text \<open>
  A shallow embedding of the WebSocket handler of the backend (\<^verbatim>\<open>websocket.ts\<close>:
  \<^verbatim>\<open>handleMessage\<close>, \<^verbatim>\<open>handleDisconnect\<close> and their helpers) and of the
  reconnection logic of the client hook \<^verbatim>\<open>useSocket\<close>.

  Conventions of the embedding:
  \<^item> the four module-level maps of the server and the two database tables it reaches
    through Prisma form one record, \<open>Server\<close>, that every handler takes and returns;
  \<^item> every call of \<^verbatim>\<open>ws.send\<close> is recorded, in program order, as a pair
    (connection, message) in the list a handler returns beside the new state;
  \<^item> the two values a handler draws from its environment, \<^verbatim>\<open>Date.now()\<close> and the
    primary key the database gives a created Video row, are inputs (\<open>Env\<close>);
  \<^item> one message is handled at a time: the interleaving of two \<^verbatim>\<open>async\<close> handlers at
    an \<^verbatim>\<open>await\<close> is not modelled, and the database answers every query;
  \<^item> \<^verbatim>\<open>currentTime\<close> is a JavaScript number that the server only stores and forwards;
    it is a \<open>real\<close> here. Timestamps are integers (milliseconds).
\<close>

subsection \<open>Types\<close>

type_synonym WSContext = nat

datatype Role = host | guest

record Client =
  ws :: WSContext
  userId :: string
  role :: Role

record RoomState =
  currentVideoId :: "string option"
  isPlaying :: bool
  currentTime :: real

text \<open>The rows of the tables \<^verbatim>\<open>Room\<close> and \<^verbatim>\<open>Video\<close> (migration.sql), without the
  creation and update dates, which no handler reads.\<close>

record Room =
  room_id :: string
  code :: string
  room_currentVideoId :: "string option"
  room_isPlaying :: bool
  room_currentTime :: real

record Video =
  video_id :: string
  youtubeId :: string
  title :: string
  thumbnail :: string
  addedBy :: string
  isPlayed :: bool
  order :: int
  roomId :: string

text \<open>The \<^verbatim>\<open>video\<close> field of an \<^verbatim>\<open>ADD_VIDEO\<close> message.\<close>

record VideoInput =
  in_youtubeId :: string
  in_title :: string
  in_thumbnail :: string

text \<open>
  Client to server. The first nine constructors are the server's type
  \<^verbatim>\<open>IncomingMessage\<close>. \<open>ADD_VIDEOS\<close> is declared only in the shared type
  \<^verbatim>\<open>WSMessage\<close> of the client, which sends it when a playlist is imported;
  \<open>OTHER\<close> stands for any other value of \<^verbatim>\<open>type\<close> (the server casts the parsed
  JSON without checking it). The arguments follow the order of the fields in the source.
\<close>

datatype IncomingMessage =
    JOIN string string Role
  | ADD_VIDEO string VideoInput string
  | PLAY string
  | PAUSE string
  | SYNC_TIME string real bool
  | NEXT_VIDEO string
  | REMOVE_VIDEO string string
  | SELECT_VIDEO string string
  | PING
  | ADD_VIDEOS string "VideoInput list" string
  | OTHER string

text \<open>A received frame: text that \<^verbatim>\<open>JSON.parse\<close> rejects, or a message.\<close>

datatype Raw = InvalidJSON | Msg IncomingMessage

text \<open>Server to client (\<^verbatim>\<open>WSServerMessage\<close>); \<open>PLAY_out\<close>, \<open>PAUSE_out\<close> and
  \<open>SYNC_TIME_out\<close> are the messages of type PLAY, PAUSE and SYNC_TIME in that direction.\<close>

datatype ServerMessage =
    SYNC_STATE "string option" bool real "Video list"
  | PLAYLIST_UPDATE "Video list"
  | PLAY_out "string option" real
  | PAUSE_out
  | SYNC_TIME_out real bool
  | PLAY_VIDEO "string option"
  | PONG
  | ERROR string

type_synonym Sent = "(WSContext \<times> ServerMessage) list"

text \<open>
  \<open>rooms\<close> is iterated by \<^verbatim>\<open>handleDisconnect\<close> in the insertion order of the
  JavaScript \<^verbatim>\<open>Map\<close>, and each client \<^verbatim>\<open>Set\<close> in the insertion order of its
  members: both are lists here. The other three maps are only looked up by key.
\<close>

record Server =
  rooms :: "(string \<times> Client list) list"
  roomStates :: "string \<rightharpoonup> RoomState"
  lastDbWrite :: "string \<rightharpoonup> int"
  playPauseCooldown :: "string \<rightharpoonup> int"
  prisma_room :: "Room list"
  prisma_video :: "Video list"

record Env =
  now :: int
  newId :: string

definition SYNC_THROTTLE_MS :: int where
  "SYNC_THROTTLE_MS = 5000"

definition PLAY_PAUSE_COOLDOWN_MS :: int where
  "PLAY_PAUSE_COOLDOWN_MS = 3000"

subsection \<open>Helpers\<close>

definition send :: "WSContext \<Rightarrow> ServerMessage \<Rightarrow> Sent" where
  "send w d = [(w, d)]"

text \<open>Everyone in the room except the sender.\<close>

definition broadcast :: "Server \<Rightarrow> string \<Rightarrow> ServerMessage \<Rightarrow> WSContext \<Rightarrow> Sent" where
  "broadcast s rid d senderWs =
     (case map_of (rooms s) rid of
        None \<Rightarrow> []
      | Some clients \<Rightarrow> map (\<lambda>c. (ws c, d)) (filter (\<lambda>c. ws c \<noteq> senderWs) clients))"

text \<open>Everyone in the room, the sender included.\<close>

definition broadcastAll :: "Server \<Rightarrow> string \<Rightarrow> ServerMessage \<Rightarrow> Sent" where
  "broadcastAll s rid d =
     (case map_of (rooms s) rid of
        None \<Rightarrow> []
      | Some clients \<Rightarrow> map (\<lambda>c. (ws c, d)) clients)"

text \<open>\<^verbatim>\<open>prisma.video.findMany({where: {roomId}, orderBy: {order: "asc"}})\<close>. The query
  leaves the order of rows with equal \<^verbatim>\<open>order\<close> to the database; the model keeps them
  in the order of the table (a stable sort).\<close>

definition getPlaylist :: "Server \<Rightarrow> string \<Rightarrow> Video list" where
  "getPlaylist s roomDbId = sort_key order (filter (\<lambda>v. roomId v = roomDbId) (prisma_video s))"

text \<open>\<^verbatim>\<open>prisma.room.findUnique({where: {code}})\<close>.\<close>

definition findUnique :: "Server \<Rightarrow> string \<Rightarrow> Room option" where
  "findUnique s c = find (\<lambda>r. code r = c) (prisma_room s)"

text \<open>\<^verbatim>\<open>prisma.video.findFirst({where: {roomId}, orderBy: {order: "desc"}})\<close>.\<close>

definition findFirst :: "Server \<Rightarrow> string \<Rightarrow> Video option" where
  "findFirst s roomDbId =
     (case rev (getPlaylist s roomDbId) of [] \<Rightarrow> None | v # _ \<Rightarrow> Some v)"

definition resolveRoomId :: "Server \<Rightarrow> string \<Rightarrow> string option" where
  "resolveRoomId s c = map_option room_id (findUnique s c)"

text \<open>\<^verbatim>\<open>roomDbId ? await getPlaylist(roomDbId) : []\<close>: the empty string is falsy too.\<close>

definition buildSyncState :: "Server \<Rightarrow> string \<Rightarrow> ServerMessage" where
  "buildSyncState s roomCode =
     (let state = (case roomStates s roomCode of
                     Some st \<Rightarrow> st
                   | None \<Rightarrow> \<lparr>currentVideoId = None, isPlaying = False, currentTime = 0\<rparr>);
          playlist = (case resolveRoomId s roomCode of
                        None \<Rightarrow> []
                      | Some roomDbId \<Rightarrow> if roomDbId = [] then [] else getPlaylist s roomDbId)
      in SYNC_STATE (currentVideoId state) (isPlaying state) (currentTime state) playlist)"

definition persistRoomState :: "Server \<Rightarrow> string \<Rightarrow> Server" where
  "persistRoomState s rid =
     (case roomStates s rid of
        None \<Rightarrow> s
      | Some state \<Rightarrow>
          (case findUnique s rid of
             None \<Rightarrow> s
           | Some room \<Rightarrow>
               s\<lparr>prisma_room :=
                   map (\<lambda>r. if room_id r = room_id room
                             then r\<lparr>room_currentVideoId := currentVideoId state,
                                    room_isPlaying := isPlaying state,
                                    room_currentTime := currentTime state\<rparr>
                             else r)
                       (prisma_room s)\<rparr>))"

text \<open>\<^verbatim>\<open>Array.prototype.findIndex\<close>: the index of the first element that satisfies the
  predicate, \<open>-1\<close> when there is none.\<close>

fun findIndex :: "('a \<Rightarrow> bool) \<Rightarrow> 'a list \<Rightarrow> int" where
  "findIndex P [] = - 1"
| "findIndex P (x # xs) =
     (if P x then 0 else (let i = findIndex P xs in if i = - 1 then - 1 else i + 1))"

text \<open>\<^verbatim>\<open>xs[i] ?? null\<close>: reading outside the array gives \<^verbatim>\<open>undefined\<close>.\<close>

definition elemAt :: "'a list \<Rightarrow> int \<Rightarrow> 'a option" where
  "elemAt xs i = (if 0 \<le> i \<and> i < int (length xs) then Some (xs ! nat i) else None)"

text \<open>The loop \<^verbatim>\<open>for (const c of set) if (p(c)) { set.delete(c); break; }\<close>.\<close>

fun deleteFirst :: "('a \<Rightarrow> bool) \<Rightarrow> 'a list \<Rightarrow> 'a list" where
  "deleteFirst P [] = []"
| "deleteFirst P (x # xs) = (if P x then xs else x # deleteFirst P xs)"

text \<open>\<^verbatim>\<open>!state.currentVideoId\<close>: true of \<^verbatim>\<open>null\<close> and of the empty string.\<close>

definition falsy :: "string option \<Rightarrow> bool" where
  "falsy v = (case v of None \<Rightarrow> True | Some x \<Rightarrow> x = [])"

subsection \<open>The message handler, one function per case of the switch\<close>

definition handleJoin :: "WSContext \<Rightarrow> string \<Rightarrow> string \<Rightarrow> Role \<Rightarrow> Server \<Rightarrow> Server \<times> Sent" where
  "handleJoin w rid uid r s =
     (case findUnique s rid of
        None \<Rightarrow> (s, send w (ERROR ''Room not found''))
      | Some room \<Rightarrow>
          (let s1 = (if map_of (rooms s) rid = None
                     then s\<lparr>rooms := AList.update rid [] (rooms s)\<rparr> else s);
               s2 = (if roomStates s1 rid = None
                     then s1\<lparr>roomStates := (roomStates s1)(rid \<mapsto>
                            \<lparr>currentVideoId = room_currentVideoId room,
                             isPlaying = room_isPlaying room,
                             currentTime = room_currentTime room\<rparr>)\<rparr>
                     else s1);
               clientSet = (case map_of (rooms s2) rid of Some cs \<Rightarrow> cs | None \<Rightarrow> []);
               clientSet' = deleteFirst (\<lambda>c. userId c = uid) clientSet
                              @ [\<lparr>ws = w, userId = uid, role = r\<rparr>];
               s3 = s2\<lparr>rooms := AList.update rid clientSet' (rooms s2)\<rparr>
           in (s3, send w (buildSyncState s3 rid))))"

text \<open>
  \<^verbatim>\<open>prisma.video.create\<close> throws when the primary key is taken; the \<^verbatim>\<open>catch\<close> around
  the switch then answers \<^verbatim>\<open>Internal server error\<close>. The columns the call does not
  give take their defaults (\<^verbatim>\<open>isPlayed\<close> false).
\<close>

definition handleAddVideo ::
  "Env \<Rightarrow> WSContext \<Rightarrow> string \<Rightarrow> VideoInput \<Rightarrow> string \<Rightarrow> Server \<Rightarrow> Server \<times> Sent" where
  "handleAddVideo env w rid video uid s =
     (case findUnique s rid of
        None \<Rightarrow> (s, send w (ERROR ''Room not found''))
      | Some room \<Rightarrow>
          (let lastVideo = findFirst s (room_id room);
               nextOrder = (case lastVideo of Some lv \<Rightarrow> order lv + 1 | None \<Rightarrow> 0)
           in if newId env \<in> set (map video_id (prisma_video s))
              then (s, send w (ERROR ''Internal server error''))
              else
                (let created = \<lparr>video_id = newId env, youtubeId = in_youtubeId video,
                                title = in_title video, thumbnail = in_thumbnail video,
                                addedBy = uid, isPlayed = False, order = nextOrder,
                                roomId = room_id room\<rparr>;
                     s1 = s\<lparr>prisma_video := prisma_video s @ [created]\<rparr>;
                     (s2, out1) =
                       (case roomStates s1 rid of
                          None \<Rightarrow> (s1, [])
                        | Some state \<Rightarrow>
                            if falsy (currentVideoId state)
                            then (let s' = persistRoomState
                                             (s1\<lparr>roomStates := (roomStates s1)(rid \<mapsto>
                                                   state\<lparr>currentVideoId := Some (youtubeId created),
                                                         isPlaying := True,
                                                         currentTime := 0\<rparr>)\<rparr>) rid
                                  in (s', broadcastAll s' rid (PLAY_VIDEO (Some (youtubeId created)))))
                            else (s1, []));
                     playlist = getPlaylist s2 (room_id room)
                 in (s2, out1 @ broadcastAll s2 rid (PLAYLIST_UPDATE playlist)))))"

definition handlePlay :: "Env \<Rightarrow> string \<Rightarrow> Server \<Rightarrow> Server \<times> Sent" where
  "handlePlay env rid s =
     (let state = roomStates s rid;
          s1 = (case state of
                  None \<Rightarrow> s
                | Some st \<Rightarrow> s\<lparr>roomStates := (roomStates s)(rid \<mapsto> st\<lparr>isPlaying := True\<rparr>)\<rparr>);
          s2 = s1\<lparr>playPauseCooldown := (playPauseCooldown s1)(rid \<mapsto> now env)\<rparr>
      in (s2, broadcastAll s2 rid
                (PLAY_out (case state of None \<Rightarrow> None | Some st \<Rightarrow> currentVideoId st)
                          (case state of None \<Rightarrow> 0 | Some st \<Rightarrow> currentTime st))))"

definition handlePause :: "Env \<Rightarrow> string \<Rightarrow> Server \<Rightarrow> Server \<times> Sent" where
  "handlePause env rid s =
     (let s1 = (case roomStates s rid of
                  None \<Rightarrow> s
                | Some st \<Rightarrow> s\<lparr>roomStates := (roomStates s)(rid \<mapsto> st\<lparr>isPlaying := False\<rparr>)\<rparr>);
          s2 = s1\<lparr>playPauseCooldown := (playPauseCooldown s1)(rid \<mapsto> now env)\<rparr>
      in (s2, broadcastAll s2 rid PAUSE_out))"

text \<open>Both calls of \<^verbatim>\<open>Date.now()\<close> in this case read the same clock value here.\<close>

definition handleSyncTime ::
  "Env \<Rightarrow> WSContext \<Rightarrow> string \<Rightarrow> real \<Rightarrow> bool \<Rightarrow> Server \<Rightarrow> Server \<times> Sent" where
  "handleSyncTime env w rid msgTime msgPlaying s =
     (let cooldownAt = (case playPauseCooldown s rid of Some t \<Rightarrow> t | None \<Rightarrow> 0);
          inCooldown = (now env - cooldownAt < PLAY_PAUSE_COOLDOWN_MS);
          s1 = (case roomStates s rid of
                  None \<Rightarrow> s
                | Some st \<Rightarrow>
                    s\<lparr>roomStates := (roomStates s)(rid \<mapsto>
                        (if \<not> inCooldown
                         then st\<lparr>currentTime := msgTime, isPlaying := msgPlaying\<rparr>
                         else st\<lparr>currentTime := msgTime\<rparr>))\<rparr>);
          lastWrite = (case lastDbWrite s1 rid of Some t \<Rightarrow> t | None \<Rightarrow> 0);
          s2 = (if now env - lastWrite \<ge> SYNC_THROTTLE_MS
                then persistRoomState (s1\<lparr>lastDbWrite := (lastDbWrite s1)(rid \<mapsto> now env)\<rparr>) rid
                else s1)
      in (s2, broadcast s2 rid
                (SYNC_TIME_out
                   (case roomStates s2 rid of Some st \<Rightarrow> currentTime st | None \<Rightarrow> msgTime)
                   (case roomStates s2 rid of Some st \<Rightarrow> isPlaying st | None \<Rightarrow> msgPlaying))
                w))"

definition handleNextVideo :: "string \<Rightarrow> Server \<Rightarrow> Server \<times> Sent" where
  "handleNextVideo rid s =
     (case findUnique s rid of
        None \<Rightarrow> (s, [])
      | Some room \<Rightarrow>
          (let state = roomStates s rid;
               allVideos = getPlaylist s (room_id room);
               currentIndex = findIndex
                  (\<lambda>v. case state of
                          None \<Rightarrow> False
                        | Some st \<Rightarrow> currentVideoId st = Some (youtubeId v)) allVideos;
               nextVideo = elemAt allVideos (currentIndex + 1);
               (s1, out1) =
                 (case state of
                    None \<Rightarrow> (s, [])
                  | Some st \<Rightarrow>
                      (case nextVideo of
                         Some nv \<Rightarrow>
                           (let s' = persistRoomState
                                       (s\<lparr>roomStates := (roomStates s)(rid \<mapsto>
                                             st\<lparr>currentVideoId := Some (youtubeId nv),
                                                isPlaying := True,
                                                currentTime := 0\<rparr>)\<rparr>) rid
                            in (s', broadcastAll s' rid (PLAY_VIDEO (Some (youtubeId nv)))))
                       | None \<Rightarrow>
                           (let s' = persistRoomState
                                       (s\<lparr>roomStates := (roomStates s)(rid \<mapsto>
                                             st\<lparr>currentVideoId := None,
                                                isPlaying := False,
                                                currentTime := 0\<rparr>)\<rparr>) rid
                            in (s', broadcastAll s' rid (PLAY_VIDEO None)))));
               playlist = getPlaylist s1 (room_id room)
           in (s1, out1 @ broadcastAll s1 rid (PLAYLIST_UPDATE playlist))))"

text \<open>\<^verbatim>\<open>prisma.video.delete({where: {id: videoId}})\<close> looks the row up by its primary key
  alone, whatever room it belongs to, and throws when there is none.\<close>

definition handleRemoveVideo :: "WSContext \<Rightarrow> string \<Rightarrow> string \<Rightarrow> Server \<Rightarrow> Server \<times> Sent" where
  "handleRemoveVideo w rid videoId s =
     (case findUnique s rid of
        None \<Rightarrow> (s, [])
      | Some room \<Rightarrow>
          if videoId \<notin> set (map video_id (prisma_video s))
          then (s, send w (ERROR ''Video not found''))
          else (let s1 = s\<lparr>prisma_video := filter (\<lambda>v. video_id v \<noteq> videoId) (prisma_video s)\<rparr>;
                    playlist = getPlaylist s1 (room_id room)
                in (s1, broadcastAll s1 rid (PLAYLIST_UPDATE playlist))))"

definition handleSelectVideo :: "string \<Rightarrow> string \<Rightarrow> Server \<Rightarrow> Server \<times> Sent" where
  "handleSelectVideo rid yid s =
     (let s1 = (case roomStates s rid of
                  None \<Rightarrow> s
                | Some st \<Rightarrow>
                    persistRoomState
                      (s\<lparr>roomStates := (roomStates s)(rid \<mapsto>
                            st\<lparr>currentVideoId := Some yid, isPlaying := True, currentTime := 0\<rparr>)\<rparr>)
                      rid)
      in (s1, broadcastAll s1 rid (PLAY_VIDEO (Some yid))))"

fun dispatch :: "Env \<Rightarrow> WSContext \<Rightarrow> IncomingMessage \<Rightarrow> Server \<Rightarrow> Server \<times> Sent" where
  "dispatch env w PING s = (s, send w PONG)"
| "dispatch env w (JOIN rid uid r) s = handleJoin w rid uid r s"
| "dispatch env w (ADD_VIDEO rid video uid) s = handleAddVideo env w rid video uid s"
| "dispatch env w (PLAY rid) s = handlePlay env rid s"
| "dispatch env w (PAUSE rid) s = handlePause env rid s"
| "dispatch env w (SYNC_TIME rid t p) s = handleSyncTime env w rid t p s"
| "dispatch env w (NEXT_VIDEO rid) s = handleNextVideo rid s"
| "dispatch env w (REMOVE_VIDEO rid videoId) s = handleRemoveVideo w rid videoId s"
| "dispatch env w (SELECT_VIDEO rid yid) s = handleSelectVideo rid yid s"
| "dispatch env w (ADD_VIDEOS rid videos uid) s = (s, send w (ERROR ''Unknown message type''))"
| "dispatch env w (OTHER ty) s = (s, send w (ERROR ''Unknown message type''))"

fun handleMessage :: "Env \<Rightarrow> WSContext \<Rightarrow> Raw \<Rightarrow> Server \<Rightarrow> Server \<times> Sent" where
  "handleMessage env w InvalidJSON s = (s, send w (ERROR ''Invalid JSON''))"
| "handleMessage env w (Msg m) s = dispatch env w m s"

subsection \<open>The disconnect handler\<close>

text \<open>The first room, in the order of the map, that holds a client of the connection.\<close>

fun findClientRoom :: "WSContext \<Rightarrow> (string \<times> Client list) list \<Rightarrow> (string \<times> Client list) option" where
  "findClientRoom w [] = None"
| "findClientRoom w ((rid, clients) # rest) =
     (if list_ex (\<lambda>c. ws c = w) clients then Some (rid, clients) else findClientRoom w rest)"

definition handleDisconnect :: "WSContext \<Rightarrow> Server \<Rightarrow> Server" where
  "handleDisconnect w s =
     (case findClientRoom w (rooms s) of
        None \<Rightarrow> s
      | Some (rid, clients) \<Rightarrow>
          (let clients' = deleteFirst (\<lambda>c. ws c = w) clients
           in if length clients' = 0
              then s\<lparr>rooms := AList.delete rid (rooms s),
                     roomStates := (roomStates s)(rid := None),
                     lastDbWrite := (lastDbWrite s)(rid := None)\<rparr>
              else s\<lparr>rooms := AList.update rid clients' (rooms s)\<rparr>))"

subsection \<open>The client: reconnection with exponential backoff (\<^verbatim>\<open>useSocket\<close>)\<close>

definition INITIAL_RETRY_DELAY :: nat where
  "INITIAL_RETRY_DELAY = 1000"

definition MAX_RETRY_DELAY :: nat where
  "MAX_RETRY_DELAY = 30000"

datatype ConnectionState = connecting | connected | disconnected

text \<open>
  The state and refs of the hook that the reconnection path touches. \<open>retryCount\<close> is
  \<^verbatim>\<open>retryCountRef.current\<close>; \<open>retryDelay\<close> is the delay given to the last
  \<^verbatim>\<open>setTimeout\<close> of \<^verbatim>\<open>scheduleRetry\<close>, \<open>None\<close> while no retry was ever scheduled.
  The counter is a natural number: the JavaScript expression \<^verbatim>\<open>1000 * 2 ** n\<close> is exact
  for every count below 1014 and \<^verbatim>\<open>Infinity\<close> from there on, so its minimum with
  30000 is the minimum computed here.
\<close>

record Socket =
  connectionState :: ConnectionState
  reconnectCount :: nat
  retryCount :: nat
  retryDelay :: "nat option"
  unmounted :: bool

definition scheduleRetry :: "Socket \<Rightarrow> Socket" where
  "scheduleRetry k =
     k\<lparr>retryDelay := Some (min (INITIAL_RETRY_DELAY * 2 ^ retryCount k) MAX_RETRY_DELAY)\<rparr>"

text \<open>\<^verbatim>\<open>connect\<close>; \<open>throws\<close> tells whether \<^verbatim>\<open>new WebSocket(url)\<close> throws, in which case the
  \<^verbatim>\<open>catch\<close> schedules the next retry at once.\<close>

definition connect :: "bool \<Rightarrow> Socket \<Rightarrow> Socket" where
  "connect throws k =
     (let k1 = k\<lparr>connectionState := connecting\<rparr>
      in if throws then scheduleRetry (k1\<lparr>connectionState := disconnected\<rparr>) else k1)"

definition onopen :: "Socket \<Rightarrow> Socket" where
  "onopen k = k\<lparr>retryCount := 0, connectionState := connected\<rparr>"

definition onclose :: "Socket \<Rightarrow> Socket" where
  "onclose k =
     (let k1 = k\<lparr>connectionState := disconnected\<rparr>
      in if \<not> unmounted k1 then scheduleRetry k1 else k1)"

text \<open>The callback of the retry timer.\<close>

definition retryTimeout :: "bool \<Rightarrow> Socket \<Rightarrow> Socket" where
  "retryTimeout throws k =
     connect throws
       (k\<lparr>retryCount := retryCount k + 1, reconnectCount := reconnectCount k + 1\<rparr>)"

text \<open>
  The connection closes and, \<open>n\<close> times over, the retry timer fires and the attempt it
  starts fails: the constructor throws (when \<open>throws i\<close> holds of attempt \<open>i\<close>), or the
  socket closes without having opened. The delay scheduled in \<open>failedAttempts throws n k\<close>
  is the one that precedes reconnection attempt \<open>n + 1\<close>.
\<close>

fun failedAttempts :: "(nat \<Rightarrow> bool) \<Rightarrow> nat \<Rightarrow> Socket \<Rightarrow> Socket" where
  "failedAttempts throws 0 k = onclose k"
| "failedAttempts throws (Suc n) k =
     (let k' = retryTimeout (throws n) (failedAttempts throws n k)
      in if throws n then k' else onclose k')"

subsection \<open>A concrete room\<close>

text \<open>One room with the code \<open>ABCDEF\<close> and an empty playlist, as \<^verbatim>\<open>POST /api/rooms\<close>
  creates it, on a server that has just started.\<close>

definition demoRoom :: Room where
  "demoRoom = \<lparr>room_id = ''r1'', code = ''ABCDEF'', room_currentVideoId = None,
               room_isPlaying = False, room_currentTime = 0\<rparr>"

definition demoServer :: Server where
  "demoServer = \<lparr>rooms = [], roomStates = Map.empty, lastDbWrite = Map.empty,
                 playPauseCooldown = Map.empty, prisma_room = [demoRoom], prisma_video = []\<rparr>"

definition atTime :: "int \<Rightarrow> string \<Rightarrow> Env" where
  "atTime t i = \<lparr>now = t, newId = i\<rparr>"

definition demoVideo :: "string \<Rightarrow> VideoInput" where
  "demoVideo y = \<lparr>in_youtubeId = y, in_title = ''T'', in_thumbnail = ''u''\<rparr>"

text \<open>Connection 1 has joined the room as its host.\<close>

definition demoJoined :: Server where
  "demoJoined = fst (handleMessage (atTime 0 []) 1 (Msg (JOIN ''ABCDEF'' ''u1'' host)) demoServer)"

text \<open>The video \<open>v1\<close> is added (the database gives the row the key \<open>a\<close>) and starts;
  then the host reports its end.\<close>

definition demoVideoRow :: Video where
  "demoVideoRow = \<lparr>video_id = ''a'', youtubeId = ''v1'', title = ''T'', thumbnail = ''u'',
                   addedBy = ''u1'', isPlayed = False, order = 0, roomId = ''r1''\<rparr>"

definition demoPlaying :: Server where
  "demoPlaying = fst (handleMessage (atTime 10 ''a'') 1
                        (Msg (ADD_VIDEO ''ABCDEF'' (demoVideo ''v1'') ''u1'')) demoJoined)"

definition demoEnded :: Server where
  "demoEnded = fst (handleMessage (atTime 20 []) 1 (Msg (NEXT_VIDEO ''ABCDEF'')) demoPlaying)"

text \<open>The video \<open>v1\<close> is paused at 100 ms; the host, the only client, disconnects, and
  comes back on a new connection at 200 ms.\<close>

definition demoPaused :: Server where
  "demoPaused = fst (handleMessage (atTime 100 []) 1 (Msg (PAUSE ''ABCDEF'')) demoPlaying)"

definition demoRejoined :: Server where
  "demoRejoined = fst (handleMessage (atTime 200 []) 3 (Msg (JOIN ''ABCDEF'' ''u1'' host))
                         (handleDisconnect 1 demoPaused))"

text \<open>Connection 2 joins with the user id of connection 1, which evicts connection 1 from
  the client set, and then disconnects: the room is cleaned up while the socket of
  connection 1 is still open.\<close>

definition demoAbandoned :: Server where
  "demoAbandoned = handleDisconnect 2
     (fst (handleMessage (atTime 5 []) 2 (Msg (JOIN ''ABCDEF'' ''u1'' guest)) demoJoined))"

text \<open>A hook that has just been mounted.\<close>

definition freshSocket :: Socket where
  "freshSocket = \<lparr>connectionState = disconnected, reconnectCount = 0, retryCount = 0,
                  retryDelay = None, unmounted = False\<rparr>"

subsection \<open>Predicates of the specification\<close>

text \<open>An idle room (no current video) is paused at position 0.\<close>

definition idleInvariant :: "RoomState \<Rightarrow> bool" where
  "idleInvariant st =
     (case currentVideoId st of None \<Rightarrow> \<not> isPlaying st \<and> currentTime st = 0 | Some _ \<Rightarrow> True)"

definition idleRow :: "Room \<Rightarrow> bool" where
  "idleRow r =
     (case room_currentVideoId r of
        None \<Rightarrow> \<not> room_isPlaying r \<and> room_currentTime r = 0
      | Some _ \<Rightarrow> True)"

text \<open>Every room state in memory and every row of the Room table is idle-consistent.\<close>

definition serverInvariant :: "Server \<Rightarrow> bool" where
  "serverInvariant s \<longleftrightarrow>
     (\<forall>rid st. roomStates s rid = Some st \<longrightarrow> idleInvariant st) \<and>
     (\<forall>r \<in> set (prisma_room s). idleRow r)"

text \<open>Every room that is in memory (a client set or a playback state) is a room of the
  database: only a \<^verbatim>\<open>JOIN\<close> that found the row creates either, and no handler deletes a
  row or changes its code.\<close>

definition memoryKnown :: "Server \<Rightarrow> bool" where
  "memoryKnown s \<longleftrightarrow>
     (\<forall>rid. map_of (rooms s) rid \<noteq> None \<or> roomStates s rid \<noteq> None
            \<longrightarrow> findUnique s rid \<noteq> None)"

text \<open>The clients of a room, in the order a broadcast reaches them.\<close>

definition clientsOf :: "Server \<Rightarrow> string \<Rightarrow> Client list" where
  "clientsOf s rid = (case map_of (rooms s) rid of None \<Rightarrow> [] | Some cs \<Rightarrow> cs)"

section \<open>Properties\<close>

subsection \<open>Auxiliary facts\<close>

lemmas handler_defs = handleJoin_def handleAddVideo_def handlePlay_def handlePause_def
  handleSyncTime_def handleNextVideo_def handleRemoveVideo_def handleSelectVideo_def

lemma demoJoined_eq:
  "demoJoined = \<lparr>rooms = [(''ABCDEF'', [\<lparr>ws = 1, userId = ''u1'', role = host\<rparr>])],
      roomStates = [''ABCDEF'' \<mapsto> \<lparr>currentVideoId = None, isPlaying = False, currentTime = 0\<rparr>],
      lastDbWrite = Map.empty, playPauseCooldown = Map.empty,
      prisma_room = [demoRoom], prisma_video = []\<rparr>"
  by (simp add: demoJoined_def demoServer_def demoRoom_def atTime_def handleJoin_def
      findUnique_def Let_def)

lemma failedAttempts_count:
  "\<not> unmounted k \<Longrightarrow>
     retryCount (failedAttempts throws n k) = retryCount k + n
     \<and> \<not> unmounted (failedAttempts throws n k)
     \<and> retryDelay (failedAttempts throws n k)
         = Some (min (1000 * 2 ^ (retryCount k + n)) 30000)"
  by (induction n)
     (simp_all add: onclose_def scheduleRetry_def retryTimeout_def connect_def Let_def
        INITIAL_RETRY_DELAY_def MAX_RETRY_DELAY_def)

lemmas helper_defs = findUnique_def findFirst_def getPlaylist_def persistRoomState_def falsy_def
  broadcastAll_def broadcast_def send_def buildSyncState_def resolveRoomId_def elemAt_def Let_def

lemma demoPlaying_eq:
  "demoPlaying = \<lparr>rooms = [(''ABCDEF'', [\<lparr>ws = 1, userId = ''u1'', role = host\<rparr>])],
      roomStates = [''ABCDEF'' \<mapsto> \<lparr>currentVideoId = Some ''v1'', isPlaying = True, currentTime = 0\<rparr>],
      lastDbWrite = Map.empty, playPauseCooldown = Map.empty,
      prisma_room = [demoRoom\<lparr>room_currentVideoId := Some ''v1'', room_isPlaying := True\<rparr>],
      prisma_video = [demoVideoRow]\<rparr>"
  by (simp add: demoPlaying_def demoJoined_eq demoRoom_def demoVideo_def demoVideoRow_def
      atTime_def handleAddVideo_def helper_defs)

lemma demoEnded_eq:
  "demoEnded = \<lparr>rooms = [(''ABCDEF'', [\<lparr>ws = 1, userId = ''u1'', role = host\<rparr>])],
      roomStates = [''ABCDEF'' \<mapsto> \<lparr>currentVideoId = None, isPlaying = False, currentTime = 0\<rparr>],
      lastDbWrite = Map.empty, playPauseCooldown = Map.empty,
      prisma_room = [demoRoom],
      prisma_video = [demoVideoRow]\<rparr>"
  by (simp add: demoEnded_def demoPlaying_eq demoRoom_def demoVideoRow_def
      atTime_def handleNextVideo_def helper_defs)

text \<open>Writing the room state to the database touches the Room table only.\<close>

lemma persistRoomState_frame [simp]:
  "rooms (persistRoomState s rid) = rooms s"
  "roomStates (persistRoomState s rid) = roomStates s"
  "lastDbWrite (persistRoomState s rid) = lastDbWrite s"
  "playPauseCooldown (persistRoomState s rid) = playPauseCooldown s"
  "prisma_video (persistRoomState s rid) = prisma_video s"
  by (simp_all add: persistRoomState_def split: option.splits)

lemma getPlaylist_persist [simp]:
  "getPlaylist (persistRoomState s rid) r = getPlaylist s r"
  by (simp add: getPlaylist_def)

lemma broadcastAll_clientsOf:
  "broadcastAll s rid d = map (\<lambda>c. (ws c, d)) (clientsOf s rid)"
  by (simp add: broadcastAll_def clientsOf_def split: option.splits)

lemma clientsOf_rooms: "rooms s' = rooms s \<Longrightarrow> clientsOf s' rid = clientsOf s rid"
  by (simp add: clientsOf_def)

text \<open>The row \<^verbatim>\<open>findFirst\<close> returns carries the greatest \<^verbatim>\<open>order\<close> of the room.\<close>

lemma sorted_map_last_greatest:
  "sorted (map f ys) \<Longrightarrow> y \<in> set ys \<Longrightarrow> f y \<le> f (last ys)"
  by (induction ys) (auto split: if_splits)

lemma findFirst_None: "getPlaylist s r = [] \<Longrightarrow> findFirst s r = None"
  by (simp add: findFirst_def)

lemma findFirst_Max:
  assumes "getPlaylist s r \<noteq> []"
  shows "\<exists>lv. findFirst s r = Some lv \<and> order lv = Max (order ` set (getPlaylist s r))"
proof -
  let ?ys = "getPlaylist s r"
  have srt: "sorted (map order ?ys)"
    by (simp add: getPlaylist_def sorted_sort_key)
  have ff: "findFirst s r = Some (last ?ys)"
    using assms by (cases ?ys rule: rev_cases) (simp_all add: findFirst_def)
  have "Max (order ` set ?ys) = order (last ?ys)"
  proof (rule Max_eqI)
    show "finite (order ` set ?ys)" by simp
    show "\<And>y. y \<in> order ` set ?ys \<Longrightarrow> y \<le> order (last ?ys)"
      using sorted_map_last_greatest [OF srt] by auto
    show "order (last ?ys) \<in> order ` set ?ys"
      using assms by simp
  qed
  with ff show ?thesis by simp
qed

lemma nextOrder_value:
  "(case findFirst s r of Some lv \<Rightarrow> order lv + 1 | None \<Rightarrow> 0)
     = (if getPlaylist s r = [] then 0 else Max (order ` set (getPlaylist s r)) + 1)"
proof (cases "getPlaylist s r = []")
  case True
  then show ?thesis by (simp add: findFirst_None)
next
  case False
  from findFirst_Max [OF False] obtain lv where
    "findFirst s r = Some lv" "order lv = Max (order ` set (getPlaylist s r))" by blast
  with False show ?thesis by simp
qed

text \<open>The idle invariant under each part of a handler.\<close>

lemma find_Some_in_set: "find P xs = Some x \<Longrightarrow> x \<in> set xs \<and> P x"
  by (induction xs) (auto split: if_splits)

lemma serverInvariant_update:
  "serverInvariant s \<Longrightarrow> idleInvariant st
     \<Longrightarrow> serverInvariant (s\<lparr>roomStates := (roomStates s)(rid \<mapsto> st)\<rparr>)"
  by (simp add: serverInvariant_def)

lemma serverInvariant_videos:
  "serverInvariant s \<Longrightarrow> serverInvariant (s\<lparr>prisma_video := v\<rparr>)"
  by (simp add: serverInvariant_def)

lemma idleRow_of_state:
  "idleInvariant st \<Longrightarrow>
     idleRow (r\<lparr>room_currentVideoId := currentVideoId st, room_isPlaying := isPlaying st,
               room_currentTime := currentTime st\<rparr>)"
  by (simp add: idleRow_def idleInvariant_def split: option.splits)

lemma serverInvariant_persist:
  assumes "serverInvariant s"
  shows "serverInvariant (persistRoomState s rid)"
proof (cases "roomStates s rid")
  case None
  with assms show ?thesis by (simp add: persistRoomState_def)
next
  case (Some st)
  with assms have i: "idleInvariant st" by (simp add: serverInvariant_def)
  show ?thesis
  proof (cases "findUnique s rid")
    case None
    with Some assms show ?thesis by (simp add: persistRoomState_def)
  next
    case (Some room)
    have rows: "\<forall>r \<in> set (prisma_room s). idleRow r"
      using assms by (simp add: serverInvariant_def)
    have mem: "\<forall>k st. roomStates s k = Some st \<longrightarrow> idleInvariant st"
      using assms by (simp add: serverInvariant_def)
    show ?thesis
      using \<open>roomStates s rid = Some st\<close> Some rows mem idleRow_of_state [OF i]
      by (auto simp: persistRoomState_def serverInvariant_def)
  qed
qed

lemma inv_join:
  assumes inv: "serverInvariant s"
  shows "serverInvariant (fst (handleJoin w rid uid r s))"
proof (cases "findUnique s rid")
  case None
  with inv show ?thesis by (simp add: handleJoin_def)
next
  case (Some room)
  then have "room \<in> set (prisma_room s)"
    by (auto simp: findUnique_def dest: find_Some_in_set)
  with inv have "idleRow room" by (simp add: serverInvariant_def)
  then have seed: "idleInvariant \<lparr>currentVideoId = room_currentVideoId room,
      isPlaying = room_isPlaying room, currentTime = room_currentTime room\<rparr>"
    by (simp add: idleRow_def idleInvariant_def split: option.splits)
  show ?thesis
    using inv seed Some
    by (simp add: handleJoin_def Let_def serverInvariant_def)
qed

lemma inv_add:
  assumes inv: "serverInvariant s"
  shows "serverInvariant (fst (handleAddVideo env w rid video uid s))"
proof -
  have a: "serverInvariant (s\<lparr>prisma_video := v\<rparr>)" for v
    using inv by (rule serverInvariant_videos)
  have i: "idleInvariant (st\<lparr>currentVideoId := Some y, isPlaying := True, currentTime := 0\<rparr>)"
    for st y by (simp add: idleInvariant_def)
  have b: "serverInvariant (persistRoomState (s\<lparr>prisma_video := v,
      roomStates := (roomStates s)(rid \<mapsto>
         st\<lparr>currentVideoId := Some y, isPlaying := True, currentTime := 0\<rparr>)\<rparr>) rid)" for v st y
  proof -
    have "serverInvariant (persistRoomState
       ((s\<lparr>prisma_video := v\<rparr>)\<lparr>roomStates := (roomStates (s\<lparr>prisma_video := v\<rparr>))(rid \<mapsto>
           st\<lparr>currentVideoId := Some y, isPlaying := True, currentTime := 0\<rparr>)\<rparr>) rid)"
      by (rule serverInvariant_persist [OF serverInvariant_update [OF a i]])
    then show ?thesis by simp
  qed
  show ?thesis
    using inv a b
    by (simp add: handleAddVideo_def Let_def split: option.splits)
qed

lemma inv_pause:
  assumes inv: "serverInvariant s"
  shows "serverInvariant (fst (handlePause env rid s))"
proof (cases "roomStates s rid")
  case None
  with inv show ?thesis by (simp add: handlePause_def Let_def serverInvariant_def)
next
  case (Some st)
  with inv have "idleInvariant st" by (simp add: serverInvariant_def)
  then have "idleInvariant (st\<lparr>isPlaying := False\<rparr>)"
    by (simp add: idleInvariant_def split: option.splits)
  from serverInvariant_update [OF inv this, of rid] Some show ?thesis
    by (simp add: handlePause_def Let_def serverInvariant_def)
qed

lemma inv_next:
  assumes inv: "serverInvariant s"
  shows "serverInvariant (fst (handleNextVideo rid s))"
proof -
  have i1: "idleInvariant (st\<lparr>currentVideoId := Some y, isPlaying := True, currentTime := 0\<rparr>)"
    for st y by (simp add: idleInvariant_def)
  have i2: "idleInvariant (st\<lparr>currentVideoId := None, isPlaying := False, currentTime := 0\<rparr>)"
    for st by (simp add: idleInvariant_def)
  have b1: "serverInvariant (persistRoomState (s\<lparr>roomStates := (roomStates s)(rid \<mapsto>
         st\<lparr>currentVideoId := Some y, isPlaying := True, currentTime := 0\<rparr>)\<rparr>) rid)" for st y
    by (rule serverInvariant_persist [OF serverInvariant_update [OF inv i1]])
  have b2: "serverInvariant (persistRoomState (s\<lparr>roomStates := (roomStates s)(rid \<mapsto>
         st\<lparr>currentVideoId := None, isPlaying := False, currentTime := 0\<rparr>)\<rparr>) rid)" for st
    by (rule serverInvariant_persist [OF serverInvariant_update [OF inv i2]])
  show ?thesis
    using inv b1 b2
    by (simp add: handleNextVideo_def Let_def split: option.splits)
qed

lemma inv_remove:
  "serverInvariant s \<Longrightarrow> serverInvariant (fst (handleRemoveVideo w rid videoId s))"
  by (simp add: handleRemoveVideo_def Let_def serverInvariant_def split: option.splits)

lemma inv_select:
  assumes inv: "serverInvariant s"
  shows "serverInvariant (fst (handleSelectVideo rid yid s))"
proof -
  have i1: "idleInvariant (st\<lparr>currentVideoId := Some y, isPlaying := True, currentTime := 0\<rparr>)"
    for st y by (simp add: idleInvariant_def)
  have b1: "serverInvariant (persistRoomState (s\<lparr>roomStates := (roomStates s)(rid \<mapsto>
         st\<lparr>currentVideoId := Some y, isPlaying := True, currentTime := 0\<rparr>)\<rparr>) rid)" for st y
    by (rule serverInvariant_persist [OF serverInvariant_update [OF inv i1]])
  show ?thesis
    using inv b1
    by (simp add: handleSelectVideo_def Let_def split: option.splits)
qed

text \<open>What a handler sends, and what of it depends on the sender.\<close>

lemma sent_broadcastAll: "(x, m) \<in> set (broadcastAll s rid d) \<Longrightarrow> m = d"
  by (auto simp: broadcastAll_clientsOf)

lemma sent_broadcast: "(x, m) \<in> set (broadcast s rid d w) \<Longrightarrow> m = d"
  by (auto simp: broadcast_def split: option.splits)

lemma sender_free_state:
  "fst (handleAddVideo env w rid video uid s) = fst (handleAddVideo env w' rid video uid s)"
  "fst (handleSyncTime env w rid t p s) = fst (handleSyncTime env w' rid t p s)"
  "fst (handleRemoveVideo w rid videoId s) = fst (handleRemoveVideo w' rid videoId s)"
  by (simp_all add: handleAddVideo_def handleSyncTime_def handleRemoveVideo_def Let_def split_beta
      split: option.splits)

lemma sender_free_payload:
  "map snd (snd (handleAddVideo env w rid video uid s))
     = map snd (snd (handleAddVideo env w' rid video uid s))"
  "map snd (snd (handleRemoveVideo w rid videoId s))
     = map snd (snd (handleRemoveVideo w' rid videoId s))"
  by (simp_all add: handleAddVideo_def handleRemoveVideo_def Let_def split_beta send_def
      split: option.splits)

lemma never_not_joined:
  "(x, ERROR ''Not joined'') \<notin> set (snd (handleJoin w rid uid r s))"
  "(x, ERROR ''Not joined'') \<notin> set (snd (handleAddVideo env w rid video uid s))"
  "(x, ERROR ''Not joined'') \<notin> set (snd (handlePlay env rid s))"
  "(x, ERROR ''Not joined'') \<notin> set (snd (handlePause env rid s))"
  "(x, ERROR ''Not joined'') \<notin> set (snd (handleSyncTime env w rid t p s))"
  "(x, ERROR ''Not joined'') \<notin> set (snd (handleNextVideo rid s))"
  "(x, ERROR ''Not joined'') \<notin> set (snd (handleRemoveVideo w rid videoId s))"
  "(x, ERROR ''Not joined'') \<notin> set (snd (handleSelectVideo rid yid s))"
  by (auto simp: handler_defs Let_def split_beta send_def buildSyncState_def
      split: option.splits if_splits dest: sent_broadcastAll sent_broadcast)

text \<open>The disconnect handler and the cooldown map.\<close>

lemma findClientRoom_Some:
  "findClientRoom w rs = Some (rid, cs) \<Longrightarrow> list_ex (\<lambda>c. ws c = w) cs \<and> (rid, cs) \<in> set rs"
  by (induction rs) (auto split: if_splits)

lemma handleDisconnect_frame [simp]:
  "playPauseCooldown (handleDisconnect w s) = playPauseCooldown s"
  "prisma_room (handleDisconnect w s) = prisma_room s"
  "prisma_video (handleDisconnect w s) = prisma_video s"
  by (simp_all add: handleDisconnect_def Let_def split: option.splits prod.splits)

lemma handleDisconnect_last:
  assumes "findClientRoom w (rooms s) = Some (rid, [c])"
  shows "handleDisconnect w s
           = s\<lparr>rooms := AList.delete rid (rooms s),
                roomStates := (roomStates s)(rid := None),
                lastDbWrite := (lastDbWrite s)(rid := None)\<rparr>"
proof -
  from findClientRoom_Some [OF assms] have "ws c = w" by simp
  with assms show ?thesis by (simp add: handleDisconnect_def)
qed

lemma cooldown_frame:
  "playPauseCooldown (fst (handleJoin w rid uid r s)) = playPauseCooldown s"
  "playPauseCooldown (fst (handleAddVideo env w rid video uid s)) = playPauseCooldown s"
  "playPauseCooldown (fst (handleSyncTime env w rid t p s)) = playPauseCooldown s"
  "playPauseCooldown (fst (handleNextVideo rid s)) = playPauseCooldown s"
  "playPauseCooldown (fst (handleRemoveVideo w rid videoId s)) = playPauseCooldown s"
  "playPauseCooldown (fst (handleSelectVideo rid yid s)) = playPauseCooldown s"
  by (simp_all add: handler_defs Let_def split_beta split: option.splits)

lemma cooldown_set:
  "playPauseCooldown (fst (handlePlay env rid s)) = (playPauseCooldown s)(rid \<mapsto> now env)"
  "playPauseCooldown (fst (handlePause env rid s)) = (playPauseCooldown s)(rid \<mapsto> now env)"
  by (simp_all add: handlePlay_def handlePause_def Let_def split: option.splits)

lemma cooldown_retained:
  assumes "playPauseCooldown x rid \<noteq> None"
  shows "playPauseCooldown (fst (handleMessage e v raw x)) rid \<noteq> None"
proof (cases raw)
  case InvalidJSON
  with assms show ?thesis by simp
next
  case (Msg m)
  with assms show ?thesis
    by (cases m) (simp_all add: cooldown_frame cooldown_set)
qed

text \<open>Rooms in memory are rooms of the database, from the start of the server on.\<close>

lemma find_map_same_code:
  "(\<And>r. code (f r) = code r)
     \<Longrightarrow> (find (\<lambda>r. code r = c) (map f rs) = None) = (find (\<lambda>r. code r = c) rs = None)"
  by (induction rs) simp_all

lemma findUnique_persist:
  "(findUnique (persistRoomState s r) c = None) = (findUnique s c = None)"
proof (cases "roomStates s r")
  case None
  then show ?thesis by (simp add: persistRoomState_def)
next
  case (Some st)
  show ?thesis
  proof (cases "findUnique s r")
    case None
    with Some show ?thesis by (simp add: persistRoomState_def)
  next
    case (Some room)
    with \<open>roomStates s r = Some st\<close> show ?thesis
      by (simp add: persistRoomState_def findUnique_def find_map_same_code)
  qed
qed

lemma memoryKnown_persist:
  "memoryKnown s \<Longrightarrow> memoryKnown (persistRoomState s r)"
  by (simp add: memoryKnown_def findUnique_persist)

lemma known_join: "memoryKnown s \<Longrightarrow> memoryKnown (fst (handleJoin w rid uid r s))"
  by (auto simp: handleJoin_def Let_def memoryKnown_def findUnique_def AList.update_conv'
      split: option.splits if_splits)

lemma known_update:
  "memoryKnown s \<Longrightarrow> roomStates s rid = Some st0
     \<Longrightarrow> memoryKnown (s\<lparr>roomStates := (roomStates s)(rid \<mapsto> st)\<rparr>)"
  by (auto simp: memoryKnown_def findUnique_def)

lemma known_videos: "memoryKnown s \<Longrightarrow> memoryKnown (s\<lparr>prisma_video := v\<rparr>)"
  by (simp add: memoryKnown_def findUnique_def)

lemma known_add: 
  assumes k: "memoryKnown s"
  shows "memoryKnown (fst (handleAddVideo env w rid video uid s))"
proof -
  have a: "memoryKnown (s\<lparr>prisma_video := v\<rparr>)" for v
    using k by (rule known_videos)
  have b: "roomStates s rid = Some st0 \<Longrightarrow>
     memoryKnown (persistRoomState (s\<lparr>prisma_video := v, roomStates := (roomStates s)(rid \<mapsto> st)\<rparr>) rid)"
    for v st st0
  proof -
    assume "roomStates s rid = Some st0"
    then have "memoryKnown (persistRoomState
        ((s\<lparr>prisma_video := v\<rparr>)\<lparr>roomStates := (roomStates (s\<lparr>prisma_video := v\<rparr>))(rid \<mapsto> st)\<rparr>) rid)"
      by (intro memoryKnown_persist known_update [OF a]) simp
    then show ?thesis by simp
  qed
  show ?thesis
    using k a b
    by (simp add: handleAddVideo_def Let_def split: option.splits)
qed

lemma known_stamp:
  "memoryKnown s \<Longrightarrow> memoryKnown (s\<lparr>playPauseCooldown := c\<rparr>)"
  "memoryKnown s \<Longrightarrow> memoryKnown (s\<lparr>lastDbWrite := l\<rparr>)"
  by (simp_all add: memoryKnown_def findUnique_def)

lemma known_play: "memoryKnown s \<Longrightarrow> memoryKnown (fst (handlePlay env rid s))"
  by (auto simp: handlePlay_def Let_def memoryKnown_def findUnique_def split: option.splits)

lemma known_pause: "memoryKnown s \<Longrightarrow> memoryKnown (fst (handlePause env rid s))"
  by (auto simp: handlePause_def Let_def memoryKnown_def findUnique_def split: option.splits)

lemma known_sync: 
  assumes k: "memoryKnown s"
  shows "memoryKnown (fst (handleSyncTime env w rid t p s))"
proof -
  have u: "memoryKnown (case roomStates s rid of None \<Rightarrow> s
             | Some st \<Rightarrow> s\<lparr>roomStates := (roomStates s)(rid \<mapsto> f st)\<rparr>)" for f
    using k by (auto simp: known_update split: option.splits)
  show ?thesis
    unfolding handleSyncTime_def Let_def fst_conv
    by (auto intro!: memoryKnown_persist known_stamp u [of "\<lambda>st. if _ then _ st else _ st", simplified] 
         split: if_splits)
qed

lemma known_next:
  assumes k: "memoryKnown s"
  shows "memoryKnown (fst (handleNextVideo rid s))"
proof -
  have b: "roomStates s rid = Some st0 \<Longrightarrow>
     memoryKnown (persistRoomState (s\<lparr>roomStates := (roomStates s)(rid \<mapsto> st)\<rparr>) rid)"
    for st st0
    by (intro memoryKnown_persist known_update [OF k])
  show ?thesis
    using k b
    by (simp add: handleNextVideo_def Let_def split: option.splits)
qed

lemma known_remove: "memoryKnown s \<Longrightarrow> memoryKnown (fst (handleRemoveVideo w rid videoId s))"
  by (simp add: handleRemoveVideo_def Let_def known_videos split: option.splits)

lemma known_select:
  assumes k: "memoryKnown s"
  shows "memoryKnown (fst (handleSelectVideo rid yid s))"
proof -
  have b: "roomStates s rid = Some st0 \<Longrightarrow>
     memoryKnown (persistRoomState (s\<lparr>roomStates := (roomStates s)(rid \<mapsto> st)\<rparr>) rid)"
    for st st0
    by (intro memoryKnown_persist known_update [OF k])
  show ?thesis
    using k b
    by (simp add: handleSelectVideo_def Let_def split: option.splits)
qed

lemma memoryKnown_message:
  assumes "memoryKnown s"
  shows "memoryKnown (fst (handleMessage env w raw s))"
proof (cases raw)
  case InvalidJSON
  with assms show ?thesis by simp
next
  case (Msg m)
  with assms show ?thesis
    by (cases m)
       (simp_all add: known_join known_add known_play known_pause known_sync known_next
          known_remove known_select)
qed

lemma memoryKnown_disconnect:
  assumes "memoryKnown s"
  shows "memoryKnown (handleDisconnect w s)"
proof (cases "findClientRoom w (rooms s)")
  case None
  with assms show ?thesis by (simp add: handleDisconnect_def)
next
  case (Some a)
  obtain rid cs where a: "a = (rid, cs)" by (cases a)
  from findClientRoom_Some [OF Some [unfolded a]] have "(rid, cs) \<in> set (rooms s)" by simp
  then have "map_of (rooms s) rid \<noteq> None"
    by (metis map_of_eq_None_iff fst_conv image_eqI)
  with assms have "findUnique s rid \<noteq> None" by (simp add: memoryKnown_def)
  with assms Some a show ?thesis
    by (auto simp: handleDisconnect_def Let_def memoryKnown_def findUnique_def
        AList.update_conv' AList.delete_conv' split: if_splits)
qed

lemma memoryKnown_start:
  "memoryKnown \<lparr>rooms = [], roomStates = Map.empty, lastDbWrite = l, playPauseCooldown = c,
                prisma_room = rs, prisma_video = vs\<rparr>"
  by (simp add: memoryKnown_def)

text \<open>
  What \<^verbatim>\<open>NEXT_VIDEO\<close> computes for a live room: the entry after the first one whose
  external id is the current video, and the first entry of the playlist when there is no
  such entry (\<open>findIndex\<close> is \<open>-1\<close>); the room stops only when that index is past the end.
\<close>

lemma next_video_result:
  assumes "findUnique s rid = Some room"
    and "roomStates s rid = Some st"
  shows "handleNextVideo rid s =
     (let pl = getPlaylist s (room_id room);
          i = findIndex (\<lambda>v. currentVideoId st = Some (youtubeId v)) pl;
          nxt = map_option youtubeId (elemAt pl (i + 1));
          s' = persistRoomState (s\<lparr>roomStates := (roomStates s)(rid \<mapsto>
                 \<lparr>currentVideoId = nxt, isPlaying = (nxt \<noteq> None), currentTime = 0\<rparr>)\<rparr>) rid
      in (s', map (\<lambda>c. (ws c, PLAY_VIDEO nxt)) (clientsOf s rid)
              @ map (\<lambda>c. (ws c, PLAYLIST_UPDATE pl)) (clientsOf s rid)))"
proof -
  have upd: "st\<lparr>currentVideoId := a, isPlaying := b, currentTime := c\<rparr>
               = \<lparr>currentVideoId = a, isPlaying = b, currentTime = c\<rparr>" for a b c
    by (cases st) simp
  have pl: "getPlaylist (s\<lparr>roomStates := m\<rparr>) r = getPlaylist s r" for m r
    by (simp add: getPlaylist_def)
  show ?thesis
    using assms
    by (simp add: handleNextVideo_def Let_def broadcastAll_clientsOf clientsOf_def upd pl
        split: option.splits)
qed

lemma findIndex_absent: "(\<forall>x \<in> set xs. \<not> P x) \<Longrightarrow> findIndex P xs = - 1"
  by (induction xs) simp_all

lemma findIndex_found:
  "findIndex P (xs @ x # ys) = int (length xs)" if "\<forall>y \<in> set xs. \<not> P y" "P x"
  using that by (induction xs) (simp_all add: Let_def)

lemma next_video_unknown_current:
  assumes "findUnique s rid = Some room"
    and "roomStates s rid = Some st"
    and "getPlaylist s (room_id room) = v0 # rest"
    and "\<forall>v \<in> set (v0 # rest). currentVideoId st \<noteq> Some (youtubeId v)"
  shows "roomStates (fst (handleNextVideo rid s)) rid
           = Some \<lparr>currentVideoId = Some (youtubeId v0), isPlaying = True, currentTime = 0\<rparr>"
proof -
  have i: "findIndex (\<lambda>v. currentVideoId st = Some (youtubeId v)) (v0 # rest) = - 1"
    by (rule findIndex_absent) (use assms(4) in blast)
  show ?thesis
    using i assms(3)
    by (simp add: next_video_result [OF assms(1,2)] Let_def elemAt_def)
qed

lemma next_video_successor:
  assumes "findUnique s rid = Some room"
    and "roomStates s rid = Some st"
    and "getPlaylist s (room_id room) = before @ cur # nxt # rest"
    and "\<forall>v \<in> set before. currentVideoId st \<noteq> Some (youtubeId v)"
    and "currentVideoId st = Some (youtubeId cur)"
  shows "roomStates (fst (handleNextVideo rid s)) rid
           = Some \<lparr>currentVideoId = Some (youtubeId nxt), isPlaying = True, currentTime = 0\<rparr>"
proof -
  have i: "findIndex (\<lambda>v. currentVideoId st = Some (youtubeId v)) (before @ cur # nxt # rest)
             = int (length before)"
    by (rule findIndex_found) (use assms(4,5) in auto)
  have n: "nat (int (length before) + 1) = Suc (length before)"
    by simp
  show ?thesis
    using i assms(3)
    by (simp add: next_video_result [OF assms(1,2)] Let_def elemAt_def nth_append n
        del: of_nat_Suc)
qed

lemma next_video_last:
  assumes "findUnique s rid = Some room"
    and "roomStates s rid = Some st"
    and "getPlaylist s (room_id room) = before @ [cur]"
    and "\<forall>v \<in> set before. currentVideoId st \<noteq> Some (youtubeId v)"
    and "currentVideoId st = Some (youtubeId cur)"
  shows "roomStates (fst (handleNextVideo rid s)) rid
           = Some \<lparr>currentVideoId = None, isPlaying = False, currentTime = 0\<rparr>"
proof -
  have i: "findIndex (\<lambda>v. currentVideoId st = Some (youtubeId v)) (before @ [cur])
             = int (length before)"
    by (rule findIndex_found) (use assms(4,5) in auto)
  show ?thesis
    using i assms(3)
    by (simp add: next_video_result [OF assms(1,2)] Let_def elemAt_def)
qed

lemma demoAbandoned_eq: "demoAbandoned = demoServer"
  by (simp add: demoAbandoned_def demoJoined_eq demoServer_def demoRoom_def atTime_def
      handleJoin_def handleDisconnect_def helper_defs)

lemma demoPaused_eq:
  "demoPaused = \<lparr>rooms = [(''ABCDEF'', [\<lparr>ws = 1, userId = ''u1'', role = host\<rparr>])],
      roomStates = [''ABCDEF'' \<mapsto> \<lparr>currentVideoId = Some ''v1'', isPlaying = False, currentTime = 0\<rparr>],
      lastDbWrite = Map.empty, playPauseCooldown = [''ABCDEF'' \<mapsto> 100],
      prisma_room = [demoRoom\<lparr>room_currentVideoId := Some ''v1'', room_isPlaying := True\<rparr>],
      prisma_video = [demoVideoRow]\<rparr>"
  by (simp add: demoPaused_def demoPlaying_eq atTime_def handlePause_def helper_defs)

lemma demoRejoined_eq:
  "demoRejoined = \<lparr>rooms = [(''ABCDEF'', [\<lparr>ws = 3, userId = ''u1'', role = host\<rparr>])],
      roomStates = [''ABCDEF'' \<mapsto> \<lparr>currentVideoId = Some ''v1'', isPlaying = True, currentTime = 0\<rparr>],
      lastDbWrite = Map.empty, playPauseCooldown = [''ABCDEF'' \<mapsto> 100],
      prisma_room = [demoRoom\<lparr>room_currentVideoId := Some ''v1'', room_isPlaying := True\<rparr>],
      prisma_video = [demoVideoRow]\<rparr>"
  by (simp add: demoRejoined_def demoPaused_eq demoRoom_def atTime_def handleJoin_def
      handleDisconnect_def helper_defs)

subsection \<open>Bulk additions\<close>

text \<open>
  Claim C3 says that the server accepts an \<^verbatim>\<open>ADD_VIDEOS\<close> message, appends its videos in
  order and auto-starts the first one in an idle room. The switch of \<^verbatim>\<open>handleMessage\<close>
  has no case for that type, although the client declares the message and sends it when it
  imports a playlist: whatever the room and the list, the message falls to the default
  case, the sender is told \<^verbatim>\<open>Unknown message type\<close>, nothing is added and nothing is
  broadcast.
\<close>

theorem ADD_VIDEOS_rejected:
  "handleMessage env w (Msg (ADD_VIDEOS rid videos uid)) s
     = (s, [(w, ERROR ''Unknown message type'')])"
  by (simp add: send_def)

subsection \<open>Reconnection backoff of the client\<close>

text \<open>
  Claim C9: for every \<open>n \<ge> 1\<close>, the delay before the \<open>n\<close>-th reconnection attempt since
  the last successful connect is \<open>min (1000 \<cdot> 2 ^ (n - 1)) 30000\<close> milliseconds, which lies
  between 1000 and 30000; a successful connection resets the attempt counter to 0, so
  that the next disconnect waits 1000 ms again. (The hook must not have been unmounted:
  an unmounted hook schedules nothing when its socket closes.)
\<close>

theorem reconnect_backoff:
  assumes "1 \<le> n" and "\<not> unmounted k"
  shows "retryDelay (failedAttempts throws (n - 1) (onopen k))
           = Some (min (1000 * 2 ^ (n - 1)) 30000)
       \<and> (1000::nat) \<le> min (1000 * 2 ^ (n - 1)) 30000
       \<and> min (1000 * 2 ^ (n - 1)) 30000 \<le> (30000::nat)
       \<and> retryCount (onopen (retryTimeout False (failedAttempts throws (n - 1) (onopen k)))) = 0
       \<and> retryDelay (onclose (onopen (retryTimeout False
                       (failedAttempts throws (n - 1) (onopen k))))) = Some 1000"
proof -
  let ?k = "failedAttempts throws (n - 1) (onopen k)"
  have u: "\<not> unmounted (onopen k)" and c: "retryCount (onopen k) = 0"
    using assms(2) by (simp_all add: onopen_def)
  from failedAttempts_count [OF u, of throws "n - 1"] c
  have d: "retryDelay ?k = Some (min (1000 * 2 ^ (n - 1)) 30000)"
    and u': "\<not> unmounted ?k"
    by simp_all
  have lo: "(1000::nat) \<le> min (1000 * 2 ^ (n - 1)) 30000"
    by simp
  have hi: "min (1000 * 2 ^ (n - 1)) 30000 \<le> (30000::nat)"
    by simp
  have r: "retryCount (onopen (retryTimeout False ?k)) = 0"
    by (simp add: onopen_def)
  have r1: "retryDelay (onclose (onopen (retryTimeout False ?k))) = Some 1000"
    using u' by (simp add: onopen_def onclose_def retryTimeout_def connect_def scheduleRetry_def
        Let_def INITIAL_RETRY_DELAY_def MAX_RETRY_DELAY_def)
  from d lo hi r r1 show ?thesis by blast
qed

text \<open>The sixth attempt after a connect waits 30000 ms (32000 capped), whether the earlier
  attempts failed in the constructor or at the socket; the connect that follows brings
  the delay back to 1000 ms.\<close>

theorem reconnect_backoff_witness:
  "(1::nat) \<le> 6 \<and> \<not> unmounted freshSocket
   \<and> retryDelay (failedAttempts even 5 (onopen freshSocket)) = Some 30000
   \<and> retryDelay (onclose (onopen (retryTimeout False
                   (failedAttempts even 5 (onopen freshSocket))))) = Some 1000"
  using reconnect_backoff [of 6 freshSocket even] by (simp add: freshSocket_def)

subsection \<open>Advancing to the next video\<close>

text \<open>
  Claim C1 says that \<^verbatim>\<open>NEXT_VIDEO\<close> moves to the successor of the playlist entry whose
  external id is the current video, and that the room stops, with
  \<^verbatim>\<open>PLAY_VIDEO{videoId: null}\<close> broadcast, when there is no successor: the current entry
  is the last one, or no entry matches the current video. The handler adds one to the
  result of \<^verbatim>\<open>findIndex\<close> without testing it for \<open>-1\<close>: when no entry matches, the
  "successor" is the entry at index 0. Here the only video of the room has ended and the
  room has stopped (current video none); a second \<^verbatim>\<open>NEXT_VIDEO\<close> starts that video again
  and broadcasts \<^verbatim>\<open>PLAY_VIDEO{videoId: "v1"}\<close>, where the claim has the room stay stopped.
\<close>

theorem NEXT_VIDEO_unknown_current_restarts:
  "roomStates demoEnded ''ABCDEF''
     = Some \<lparr>currentVideoId = None, isPlaying = False, currentTime = 0\<rparr>
   \<and> getPlaylist demoEnded ''r1'' = [demoVideoRow]
   \<and> roomStates (fst (handleMessage (atTime 30 []) 1 (Msg (NEXT_VIDEO ''ABCDEF'')) demoEnded))
        ''ABCDEF''
     = Some \<lparr>currentVideoId = Some ''v1'', isPlaying = True, currentTime = 0\<rparr>
   \<and> snd (handleMessage (atTime 30 []) 1 (Msg (NEXT_VIDEO ''ABCDEF'')) demoEnded)
     = [(1, PLAY_VIDEO (Some ''v1'')), (1, PLAYLIST_UPDATE [demoVideoRow])]"
  by (simp add: demoEnded_eq demoRoom_def demoVideoRow_def
      atTime_def handleNextVideo_def helper_defs)

subsection \<open>Messages for a room that does not exist\<close>

text \<open>
  Claim C5 says that every mutation whose \<^verbatim>\<open>roomId\<close> names no room of the database is
  answered with \<^verbatim>\<open>ERROR{"Room not found"}\<close>. Only \<^verbatim>\<open>ADD_VIDEO\<close> (and \<^verbatim>\<open>JOIN\<close>) do
  that. Counterexample: the joined connection 1 sends \<^verbatim>\<open>PLAY\<close> and \<^verbatim>\<open>NEXT_VIDEO\<close> for
  the unknown code \<open>ZZZZZZ\<close> and receives nothing.
\<close>

theorem unknown_room_gets_no_error:
  "findUnique demoJoined ''ZZZZZZ'' = None
   \<and> snd (handleMessage (atTime 10 []) 1 (Msg (PLAY ''ZZZZZZ'')) demoJoined) = []
   \<and> snd (handleMessage (atTime 10 []) 1 (Msg (NEXT_VIDEO ''ZZZZZZ'')) demoJoined) = []"
  by (simp add: demoJoined_eq demoRoom_def
      atTime_def handlePlay_def handleNextVideo_def helper_defs)

text \<open>
  Claim C5 as amended. Let the code name no room of the database, on a server whose rooms
  in memory are all rooms of the database (\<open>memoryKnown\<close>: true when the server starts and
  kept by every message and disconnect). \<^verbatim>\<open>ADD_VIDEO\<close> is
  answered with \<^verbatim>\<open>ERROR{"Room not found"}\<close> and changes nothing. \<^verbatim>\<open>NEXT_VIDEO\<close> and
  \<^verbatim>\<open>REMOVE_VIDEO\<close> return at their guard, and \<^verbatim>\<open>SELECT_VIDEO\<close> finds no state: nothing
  is sent and nothing changes. \<^verbatim>\<open>PLAY\<close>, \<^verbatim>\<open>PAUSE\<close> and \<^verbatim>\<open>SYNC_TIME\<close> never look the room
  up: nothing is sent, no playback state and no row changes, and only the timestamp of
  the code is recorded (the cooldown for PLAY and PAUSE, the write throttle for a
  SYNC_TIME that is due).
\<close>

theorem unknown_room_handling:
  assumes "findUnique s rid = None"
    and "memoryKnown s"
  shows "handleMessage env w (Msg (ADD_VIDEO rid video uid)) s = (s, [(w, ERROR ''Room not found'')])
       \<and> handleMessage env w (Msg (NEXT_VIDEO rid)) s = (s, [])
       \<and> handleMessage env w (Msg (REMOVE_VIDEO rid videoId)) s = (s, [])
       \<and> handleMessage env w (Msg (SELECT_VIDEO rid yid)) s = (s, [])
       \<and> handleMessage env w (Msg (PLAY rid)) s
           = (s\<lparr>playPauseCooldown := (playPauseCooldown s)(rid \<mapsto> now env)\<rparr>, [])
       \<and> handleMessage env w (Msg (PAUSE rid)) s
           = (s\<lparr>playPauseCooldown := (playPauseCooldown s)(rid \<mapsto> now env)\<rparr>, [])
       \<and> handleMessage env w (Msg (SYNC_TIME rid t p)) s
           = (if now env - (case lastDbWrite s rid of Some l \<Rightarrow> l | None \<Rightarrow> 0) \<ge> 5000
              then s\<lparr>lastDbWrite := (lastDbWrite s)(rid \<mapsto> now env)\<rparr> else s, [])"
proof -
  from assms have m: "map_of (rooms s) rid = None" and st: "roomStates s rid = None"
    by (auto simp: memoryKnown_def)
  have a: "handleMessage env w (Msg (ADD_VIDEO rid video uid)) s
             = (s, [(w, ERROR ''Room not found'')])"
    using assms(1) by (simp add: handleAddVideo_def send_def)
  have n: "handleMessage env w (Msg (NEXT_VIDEO rid)) s = (s, [])"
    using assms(1) by (simp add: handleNextVideo_def)
  have r: "handleMessage env w (Msg (REMOVE_VIDEO rid videoId)) s = (s, [])"
    using assms(1) by (simp add: handleRemoveVideo_def)
  have sl: "handleMessage env w (Msg (SELECT_VIDEO rid yid)) s = (s, [])"
    using m st by (simp add: handleSelectVideo_def broadcastAll_def)
  have pl: "handleMessage env w (Msg (PLAY rid)) s
           = (s\<lparr>playPauseCooldown := (playPauseCooldown s)(rid \<mapsto> now env)\<rparr>, [])"
    using m st by (simp add: handlePlay_def broadcastAll_def)
  have pa: "handleMessage env w (Msg (PAUSE rid)) s
           = (s\<lparr>playPauseCooldown := (playPauseCooldown s)(rid \<mapsto> now env)\<rparr>, [])"
    using m st by (simp add: handlePause_def broadcastAll_def)
  have sy: "handleMessage env w (Msg (SYNC_TIME rid t p)) s
           = (if now env - (case lastDbWrite s rid of Some l \<Rightarrow> l | None \<Rightarrow> 0) \<ge> 5000
              then s\<lparr>lastDbWrite := (lastDbWrite s)(rid \<mapsto> now env)\<rparr> else s, [])"
    using m st
    by (simp add: handleSyncTime_def broadcast_def SYNC_THROTTLE_MS_def Let_def
        persistRoomState_def)
  from a n r sl pl pa sy show ?thesis by blast
qed

theorem unknown_room_handling_witness:
  "findUnique demoJoined ''ZZZZZZ'' = None
   \<and> memoryKnown demoJoined
   \<and> handleMessage (atTime 10 ''b'') 1 (Msg (ADD_VIDEO ''ZZZZZZ'' (demoVideo ''v2'') ''u1'')) demoJoined
       = (demoJoined, [(1, ERROR ''Room not found'')])
   \<and> handleMessage (atTime 10 ''b'') 1 (Msg (REMOVE_VIDEO ''ZZZZZZ'' ''a'')) demoJoined
       = (demoJoined, [])
   \<and> handleMessage (atTime 10 ''b'') 1 (Msg (SELECT_VIDEO ''ZZZZZZ'' ''v1'')) demoJoined
       = (demoJoined, [])"
proof -
  have h1: "findUnique demoJoined ''ZZZZZZ'' = None"
    by (simp add: demoJoined_eq demoRoom_def findUnique_def)
  have h2: "memoryKnown demoJoined"
    unfolding demoJoined_def
    by (intro memoryKnown_message) (simp add: demoServer_def memoryKnown_start)
  from unknown_room_handling [OF h1 h2] h1 h2 show ?thesis by blast
qed

subsection \<open>The play/pause cooldown\<close>



subsection \<open>Adding a video to an idle room\<close>

text \<open>
  Claim C7 says that every \<^verbatim>\<open>ADD_VIDEO\<close> on an existing room whose current video is none
  starts the added video and sends \<^verbatim>\<open>PLAY_VIDEO\<close> and \<^verbatim>\<open>PLAYLIST_UPDATE\<close> to the clients.
  The auto-start is guarded by \<^verbatim>\<open>state && !state.currentVideoId\<close>, where \<^verbatim>\<open>state\<close> is
  the state of the room in memory, which exists only between the first \<^verbatim>\<open>JOIN\<close> and the
  disconnect of the last client. Counterexample: connection 1 was evicted by a second
  \<^verbatim>\<open>JOIN\<close> of its user id and the room was cleaned up when that second connection left;
  the room exists and its current video is none. The \<^verbatim>\<open>ADD_VIDEO\<close> of connection 1 adds
  the row, starts nothing (the room of the database keeps no current video) and sends
  nothing.
\<close>

theorem ADD_VIDEO_without_room_state_does_not_start:
  "findUnique demoAbandoned ''ABCDEF'' = Some demoRoom
   \<and> room_currentVideoId demoRoom = None
   \<and> roomStates demoAbandoned ''ABCDEF'' = None
   \<and> handleMessage (atTime 10 ''a'') 1
         (Msg (ADD_VIDEO ''ABCDEF'' (demoVideo ''v1'') ''u1'')) demoAbandoned
       = (demoAbandoned\<lparr>prisma_video := [demoVideoRow]\<rparr>, [])
   \<and> roomStates (demoAbandoned\<lparr>prisma_video := [demoVideoRow]\<rparr>) ''ABCDEF'' = None
   \<and> prisma_room (demoAbandoned\<lparr>prisma_video := [demoVideoRow]\<rparr>) = [demoRoom]"
  by (simp add: demoAbandoned_eq demoServer_def demoRoom_def demoVideo_def demoVideoRow_def
      atTime_def handleAddVideo_def helper_defs)

text \<open>
  Claim C7 as amended: an \<^verbatim>\<open>ADD_VIDEO\<close> on an existing room that is live (its playback
  state is in memory) and whose current video is none leaves the room state
  \<open>(added.externalId, playing, 0)\<close>; the order of the new entry is the greatest order of the
  room's entries plus one, or 0 when the room has none; and every client of the room is
  sent \<^verbatim>\<open>PLAY_VIDEO\<close> with the added video and then \<^verbatim>\<open>PLAYLIST_UPDATE\<close>, in that order.
  (The key the database generates for the row is a new one.)
\<close>

theorem add_video_auto_start:
  assumes room: "findUnique s rid = Some room"
    and live: "roomStates s rid = Some st"
    and idle: "currentVideoId st = None"
    and fresh: "newId env \<notin> set (map video_id (prisma_video s))"
    and run: "handleMessage env w (Msg (ADD_VIDEO rid video uid)) s = (s', out)"
  shows "roomStates s' rid
           = Some \<lparr>currentVideoId = Some (in_youtubeId video), isPlaying = True, currentTime = 0\<rparr>
       \<and> (\<exists>created. prisma_video s' = prisma_video s @ [created]
             \<and> youtubeId created = in_youtubeId video
             \<and> roomId created = room_id room
             \<and> order created
                 = (if getPlaylist s (room_id room) = [] then 0
                    else Max (order ` set (getPlaylist s (room_id room))) + 1))
       \<and> out = map (\<lambda>c. (ws c, PLAY_VIDEO (Some (in_youtubeId video)))) (clientsOf s rid)
              @ map (\<lambda>c. (ws c, PLAYLIST_UPDATE (getPlaylist s' (room_id room)))) (clientsOf s rid)"
proof -
  define created where
    "created = \<lparr>video_id = newId env, youtubeId = in_youtubeId video, title = in_title video,
                thumbnail = in_thumbnail video, addedBy = uid, isPlayed = False,
                order = (case findFirst s (room_id room) of Some lv \<Rightarrow> order lv + 1 | None \<Rightarrow> 0),
                roomId = room_id room\<rparr>"
  define s1 where "s1 = s\<lparr>prisma_video := prisma_video s @ [created]\<rparr>"
  define s2 where
    "s2 = persistRoomState (s1\<lparr>roomStates := (roomStates s1)(rid \<mapsto>
             st\<lparr>currentVideoId := Some (youtubeId created), isPlaying := True,
                currentTime := 0\<rparr>)\<rparr>) rid"
  have res: "handleMessage env w (Msg (ADD_VIDEO rid video uid)) s
      = (s2, broadcastAll s2 rid (PLAY_VIDEO (Some (youtubeId created)))
             @ broadcastAll s2 rid (PLAYLIST_UPDATE (getPlaylist s2 (room_id room))))"
    using room live idle fresh
    by (simp add: handleAddVideo_def Let_def falsy_def s2_def s1_def created_def)
  with run have s': "s' = s2"
    and out: "out = broadcastAll s2 rid (PLAY_VIDEO (Some (youtubeId created)))
             @ broadcastAll s2 rid (PLAYLIST_UPDATE (getPlaylist s2 (room_id room)))"
    by simp_all
  have y: "youtubeId created = in_youtubeId video" by (simp add: created_def)
  have st': "roomStates s' rid
           = Some \<lparr>currentVideoId = Some (in_youtubeId video), isPlaying = True, currentTime = 0\<rparr>"
    by (simp add: s' s2_def y)
  have pv: "prisma_video s' = prisma_video s @ [created]"
    by (simp add: s' s2_def s1_def)
  have ord: "order created
                 = (if getPlaylist s (room_id room) = [] then 0
                    else Max (order ` set (getPlaylist s (room_id room))) + 1)"
    using nextOrder_value [of s "room_id room"] by (simp add: created_def)
  have rm: "roomId created = room_id room" by (simp add: created_def)
  have cl: "clientsOf s2 rid = clientsOf s rid"
    by (rule clientsOf_rooms) (simp add: s2_def s1_def)
  have o: "out = map (\<lambda>c. (ws c, PLAY_VIDEO (Some (in_youtubeId video)))) (clientsOf s rid)
              @ map (\<lambda>c. (ws c, PLAYLIST_UPDATE (getPlaylist s' (room_id room)))) (clientsOf s rid)"
    by (simp add: out broadcastAll_clientsOf cl y s')
  from st' pv y rm ord o show ?thesis by blast
qed

text \<open>The first scenario of the specification: the first video of the room \<open>ABCDEF\<close>.\<close>

theorem add_video_auto_start_witness:
  "findUnique demoJoined ''ABCDEF'' = Some demoRoom
   \<and> roomStates demoJoined ''ABCDEF''
       = Some \<lparr>currentVideoId = None, isPlaying = False, currentTime = 0\<rparr>
   \<and> ''a'' \<notin> set (map video_id (prisma_video demoJoined))
   \<and> roomStates demoPlaying ''ABCDEF''
       = Some \<lparr>currentVideoId = Some ''v1'', isPlaying = True, currentTime = 0\<rparr>
   \<and> snd (handleMessage (atTime 10 ''a'') 1
             (Msg (ADD_VIDEO ''ABCDEF'' (demoVideo ''v1'') ''u1'')) demoJoined)
       = [(1, PLAY_VIDEO (Some ''v1'')), (1, PLAYLIST_UPDATE [demoVideoRow])]"
proof -
  let ?st = "\<lparr>currentVideoId = None, isPlaying = False, currentTime = 0\<rparr>"
  let ?run = "handleMessage (atTime 10 ''a'') 1
                (Msg (ADD_VIDEO ''ABCDEF'' (demoVideo ''v1'') ''u1'')) demoJoined"
  have h1: "findUnique demoJoined ''ABCDEF'' = Some demoRoom"
    by (simp add: demoJoined_eq demoRoom_def findUnique_def)
  have h2: "roomStates demoJoined ''ABCDEF'' = Some ?st"
    by (simp add: demoJoined_eq)
  have h3: "currentVideoId ?st = None"
    by simp
  have h4: "newId (atTime 10 ''a'') \<notin> set (map video_id (prisma_video demoJoined))"
    by (simp add: demoJoined_eq atTime_def)
  have h5: "?run = (demoPlaying, snd ?run)"
    by (simp add: demoPlaying_def)
  have pl: "getPlaylist demoPlaying (room_id demoRoom) = [demoVideoRow]"
    by (simp add: demoPlaying_eq demoRoom_def demoVideoRow_def getPlaylist_def)
  have cl: "clientsOf demoJoined ''ABCDEF'' = [\<lparr>ws = 1, userId = ''u1'', role = host\<rparr>]"
    by (simp add: demoJoined_eq clientsOf_def)
  from add_video_auto_start [OF h1 h2 h3 h4 h5] h1 h2 h4 pl cl
  show ?thesis by (simp add: demoVideo_def atTime_def)
qed

subsection \<open>Removing a video\<close>

text \<open>
  Claim C8: a \<^verbatim>\<open>REMOVE_VIDEO\<close> on an existing room never changes the playback state of
  a room (in memory or in the database), even when the removed entry is the one that is
  playing. If \<^verbatim>\<open>videoId\<close> is the key of an entry, the entry is deleted and every client
  of the room is sent \<^verbatim>\<open>PLAYLIST_UPDATE\<close>; if it is the key of no entry, the sender
  receives \<^verbatim>\<open>ERROR{"Video not found"}\<close>, nothing is broadcast and nothing changes.
\<close>

theorem remove_video_frame:
  assumes "findUnique s rid = Some room"
    and "handleMessage env w (Msg (REMOVE_VIDEO rid videoId)) s = (s', out)"
  shows "roomStates s' = roomStates s \<and> prisma_room s' = prisma_room s
       \<and> (if videoId \<in> set (map video_id (prisma_video s))
          then prisma_video s' = filter (\<lambda>v. video_id v \<noteq> videoId) (prisma_video s)
             \<and> out = map (\<lambda>c. (ws c, PLAYLIST_UPDATE (getPlaylist s' (room_id room))))
                        (clientsOf s rid)
          else s' = s \<and> out = [(w, ERROR ''Video not found'')])"
  using assms
  by (auto simp: handleRemoveVideo_def send_def broadcastAll_clientsOf clientsOf_def Let_def
      split: if_splits)

text \<open>The playing video \<open>v1\<close> (key \<open>a\<close>) is removed: the room keeps playing \<open>v1\<close>. Removing
  it again is an error.\<close>

theorem remove_video_frame_witness:
  "findUnique demoPlaying ''ABCDEF''
     = Some (demoRoom\<lparr>room_currentVideoId := Some ''v1'', room_isPlaying := True\<rparr>)
   \<and> roomStates (fst (handleMessage (atTime 20 []) 1 (Msg (REMOVE_VIDEO ''ABCDEF'' ''a'')) demoPlaying))
        ''ABCDEF''
       = Some \<lparr>currentVideoId = Some ''v1'', isPlaying = True, currentTime = 0\<rparr>
   \<and> prisma_video (fst (handleMessage (atTime 20 []) 1 (Msg (REMOVE_VIDEO ''ABCDEF'' ''a'')) demoPlaying))
       = []
   \<and> snd (handleMessage (atTime 20 []) 1 (Msg (REMOVE_VIDEO ''ABCDEF'' ''a'')) demoPlaying)
       = [(1, PLAYLIST_UPDATE [])]
   \<and> handleMessage (atTime 30 []) 1 (Msg (REMOVE_VIDEO ''ABCDEF'' ''a''))
        (fst (handleMessage (atTime 20 []) 1 (Msg (REMOVE_VIDEO ''ABCDEF'' ''a'')) demoPlaying))
       = (fst (handleMessage (atTime 20 []) 1 (Msg (REMOVE_VIDEO ''ABCDEF'' ''a'')) demoPlaying),
          [(1, ERROR ''Video not found'')])"
proof -
  let ?room = "demoRoom\<lparr>room_currentVideoId := Some ''v1'', room_isPlaying := True\<rparr>"
  let ?run = "handleMessage (atTime 20 []) 1 (Msg (REMOVE_VIDEO ''ABCDEF'' ''a'')) demoPlaying"
  let ?run2 = "handleMessage (atTime 30 []) 1 (Msg (REMOVE_VIDEO ''ABCDEF'' ''a'')) (fst ?run)"
  have h1: "findUnique demoPlaying ''ABCDEF'' = Some ?room"
    by (simp add: demoPlaying_eq demoRoom_def findUnique_def)
  have st: "roomStates demoPlaying ''ABCDEF''
              = Some \<lparr>currentVideoId = Some ''v1'', isPlaying = True, currentTime = 0\<rparr>"
    by (simp add: demoPlaying_eq)
  have pv: "prisma_video demoPlaying = [demoVideoRow]" "video_id demoVideoRow = ''a''"
    by (simp_all add: demoPlaying_eq demoVideoRow_def)
  have cl: "clientsOf demoPlaying ''ABCDEF'' = [\<lparr>ws = 1, userId = ''u1'', role = host\<rparr>]"
    by (simp add: demoPlaying_eq clientsOf_def)
  have a: "roomStates (fst ?run) = roomStates demoPlaying" "prisma_video (fst ?run) = []"
      "snd ?run = [(1, PLAYLIST_UPDATE (getPlaylist (fst ?run) (room_id ?room)))]"
    using remove_video_frame [OF h1 surjective_pairing, of "atTime 20 []" 1 "''a''"] pv cl
    by simp_all
  have pl: "getPlaylist (fst ?run) (room_id ?room) = []"
    using a(2) by (simp add: getPlaylist_def)
  have h1': "findUnique (fst ?run) ''ABCDEF'' = Some ?room"
    using remove_video_frame [OF h1 surjective_pairing, of "atTime 20 []" 1 "''a''"] h1
    by (simp add: findUnique_def)
  have b: "?run2 = (fst ?run, [(1, ERROR ''Video not found'')])"
    using remove_video_frame [OF h1' surjective_pairing, of "atTime 30 []" 1 "''a''"] a(2)
    by (simp add: prod_eq_iff)
  from h1 a st pl b show ?thesis by simp
qed

subsection \<open>The idle invariant\<close>

text \<open>
  Claim C2 says that a room without a current video is paused at position 0, and that
  every mutation keeps it so, \<^verbatim>\<open>PLAY\<close> and \<^verbatim>\<open>SYNC_TIME\<close> in particular. Neither handler
  looks at the current video. Counterexample: in the room connection 1 has just joined
  (no video, paused, position 0), \<^verbatim>\<open>PLAY\<close> sets \<^verbatim>\<open>isPlaying\<close>, and
  \<^verbatim>\<open>SYNC_TIME{currentTime: 7, isPlaying: false}\<close> sets the position to 7.
\<close>

theorem PLAY_on_idle_room_breaks_invariant:
  "roomStates demoJoined ''ABCDEF''
     = Some \<lparr>currentVideoId = None, isPlaying = False, currentTime = 0\<rparr>
   \<and> idleInvariant \<lparr>currentVideoId = None, isPlaying = False, currentTime = 0\<rparr>
   \<and> roomStates (fst (handleMessage (atTime 10 []) 1 (Msg (PLAY ''ABCDEF'')) demoJoined)) ''ABCDEF''
     = Some \<lparr>currentVideoId = None, isPlaying = True, currentTime = 0\<rparr>
   \<and> \<not> idleInvariant \<lparr>currentVideoId = None, isPlaying = True, currentTime = 0\<rparr>
   \<and> roomStates (fst (handleMessage (atTime 10 []) 1 (Msg (SYNC_TIME ''ABCDEF'' 7 False)) demoJoined))
        ''ABCDEF''
     = Some \<lparr>currentVideoId = None, isPlaying = False, currentTime = 7\<rparr>
   \<and> \<not> idleInvariant \<lparr>currentVideoId = None, isPlaying = False, currentTime = 7\<rparr>"
  by (simp add: demoJoined_eq demoRoom_def idleInvariant_def
      atTime_def handlePlay_def handleSyncTime_def helper_defs PLAY_PAUSE_COOLDOWN_MS_def
      SYNC_THROTTLE_MS_def)

text \<open>
  Claim C2 as amended: if every room state in memory and every row of the Room table
  satisfies "no current video implies paused at position 0", then so do they after any
  message other than \<^verbatim>\<open>PLAY\<close> and \<^verbatim>\<open>SYNC_TIME\<close>: after \<^verbatim>\<open>JOIN\<close>, \<^verbatim>\<open>ADD_VIDEO\<close>,
  \<^verbatim>\<open>SELECT_VIDEO\<close>, \<^verbatim>\<open>NEXT_VIDEO\<close>, \<^verbatim>\<open>PAUSE\<close>, \<^verbatim>\<open>REMOVE_VIDEO\<close>, \<^verbatim>\<open>PING\<close> and any
  rejected frame. (\<^verbatim>\<open>PLAY\<close> and \<^verbatim>\<open>SYNC_TIME\<close> write \<^verbatim>\<open>isPlaying\<close> and \<^verbatim>\<open>currentTime\<close>
  whatever the current video is.)
\<close>

theorem idle_invariant_preserved:
  assumes "serverInvariant s"
    and "\<forall>rid. raw \<noteq> Msg (PLAY rid)"
    and "\<forall>rid t p. raw \<noteq> Msg (SYNC_TIME rid t p)"
  shows "serverInvariant (fst (handleMessage env w raw s))"
proof (cases raw)
  case InvalidJSON
  with assms(1) show ?thesis by simp
next
  case (Msg m)
  show ?thesis
  proof (cases m)
    case (PLAY rid)
    with Msg assms(2) show ?thesis by blast
  next
    case (SYNC_TIME rid t p)
    with Msg assms(3) show ?thesis by blast
  qed (use Msg assms(1) in \<open>simp_all add: inv_join inv_add inv_pause inv_next inv_remove inv_select\<close>)
qed

theorem idle_invariant_preserved_witness:
  "serverInvariant demoJoined
   \<and> serverInvariant (fst (handleMessage (atTime 10 ''a'') 1
        (Msg (ADD_VIDEO ''ABCDEF'' (demoVideo ''v1'') ''u1'')) demoJoined))
   \<and> serverInvariant (fst (handleMessage (atTime 20 []) 1 (Msg (NEXT_VIDEO ''ABCDEF'')) demoPlaying))
   \<and> roomStates (fst (handleMessage (atTime 20 []) 1 (Msg (NEXT_VIDEO ''ABCDEF'')) demoPlaying)) ''ABCDEF''
       = Some \<lparr>currentVideoId = None, isPlaying = False, currentTime = 0\<rparr>"
proof -
  have h1: "serverInvariant demoJoined"
    by (simp add: demoJoined_eq serverInvariant_def idleInvariant_def idleRow_def demoRoom_def)
  have h2: "\<forall>rid. Msg (ADD_VIDEO ''ABCDEF'' (demoVideo ''v1'') ''u1'') \<noteq> Msg (PLAY rid)"
    by simp
  have h3: "\<forall>rid t p. Msg (ADD_VIDEO ''ABCDEF'' (demoVideo ''v1'') ''u1'') \<noteq> Msg (SYNC_TIME rid t p)"
    by simp
  have h2': "\<forall>rid. Msg (NEXT_VIDEO ''ABCDEF'') \<noteq> Msg (PLAY rid)"
    by simp
  have h3': "\<forall>rid t p. Msg (NEXT_VIDEO ''ABCDEF'') \<noteq> Msg (SYNC_TIME rid t p)"
    by simp
  have a: "serverInvariant demoPlaying"
    using idle_invariant_preserved [OF h1 h2 h3, of "atTime 10 ''a''" 1]
    by (simp add: demoPlaying_def)
  have e: "roomStates demoEnded ''ABCDEF''
       = Some \<lparr>currentVideoId = None, isPlaying = False, currentTime = 0\<rparr>"
    by (simp add: demoEnded_eq)
  from h1 a idle_invariant_preserved [OF a h2' h3', of "atTime 20 []" 1] e
  show ?thesis by (simp add: demoPlaying_def demoEnded_def)
qed

subsection \<open>Messages from a connection that has not joined\<close>

text \<open>
  Claim C4 says that a connection that has not sent \<^verbatim>\<open>JOIN\<close> gets
  \<^verbatim>\<open>ERROR{"Not joined"}\<close> for every message but \<^verbatim>\<open>JOIN\<close> and \<^verbatim>\<open>PING\<close>, with no state
  change and no broadcast. The server keeps nothing about a connection but its membership
  in the client sets, and no handler consults it. Counterexample: connection 2 is in no
  room; its \<^verbatim>\<open>ADD_VIDEO\<close> for the room of connection 1 adds the video, starts it and is
  broadcast to connection 1, and connection 2 gets no reply at all.
\<close>

theorem unjoined_sender_is_served:
  "findClientRoom 2 (rooms demoJoined) = None
   \<and> snd (handleMessage (atTime 10 ''a'') 2
            (Msg (ADD_VIDEO ''ABCDEF'' (demoVideo ''v1'') ''u2'')) demoJoined)
       = [(1, PLAY_VIDEO (Some ''v1'')),
          (1, PLAYLIST_UPDATE [demoVideoRow\<lparr>addedBy := ''u2''\<rparr>])]
   \<and> roomStates (fst (handleMessage (atTime 10 ''a'') 2
            (Msg (ADD_VIDEO ''ABCDEF'' (demoVideo ''v1'') ''u2'')) demoJoined)) ''ABCDEF''
       = Some \<lparr>currentVideoId = Some ''v1'', isPlaying = True, currentTime = 0\<rparr>"
  by (simp add: demoJoined_eq demoRoom_def demoVideo_def demoVideoRow_def
      atTime_def handleAddVideo_def helper_defs)

text \<open>
  Claim C4 as amended: the handler does not distinguish a connection that has joined
  from one that has not. For every frame other than \<^verbatim>\<open>JOIN\<close>, the state the server
  reaches is the same whichever connection sent it; \<^verbatim>\<open>ERROR{"Not joined"}\<close> is sent to
  no one; and, \<^verbatim>\<open>SYNC_TIME\<close> apart (its broadcast skips the sender), the messages sent
  are the same, in the same order, whichever connection sent the frame.
\<close>

theorem no_join_gate:
  assumes "\<forall>rid uid r. raw \<noteq> Msg (JOIN rid uid r)"
  shows "fst (handleMessage env w raw s) = fst (handleMessage env w' raw s)
       \<and> (x, ERROR ''Not joined'') \<notin> set (snd (handleMessage env w raw s))
       \<and> ((\<forall>rid t p. raw \<noteq> Msg (SYNC_TIME rid t p))
            \<longrightarrow> map snd (snd (handleMessage env w raw s))
                  = map snd (snd (handleMessage env w' raw s)))"
proof (cases raw)
  case InvalidJSON
  then show ?thesis by (simp add: send_def)
next
  case (Msg m)
  show ?thesis
  proof (cases m)
    case (JOIN rid uid r)
    with Msg assms show ?thesis by blast
  next
    case (SYNC_TIME rid t p)
    have a: "fst (handleMessage env w raw s) = fst (handleMessage env w' raw s)"
      using Msg SYNC_TIME by (simp add: sender_free_state)
    have b: "(x, ERROR ''Not joined'') \<notin> set (snd (handleMessage env w raw s))"
      using Msg SYNC_TIME by (simp add: never_not_joined)
    have c: "(\<forall>rid t p. raw \<noteq> Msg (SYNC_TIME rid t p))
            \<longrightarrow> map snd (snd (handleMessage env w raw s))
                  = map snd (snd (handleMessage env w' raw s))"
      using Msg SYNC_TIME by blast
    from a b c show ?thesis by blast
  qed (use Msg in \<open>simp_all add: never_not_joined sender_free_state sender_free_payload send_def\<close>)
qed


theorem no_join_gate_witness:
  "findClientRoom 2 (rooms demoJoined) = None
   \<and> findClientRoom 1 (rooms demoJoined)
       = Some (''ABCDEF'', [\<lparr>ws = 1, userId = ''u1'', role = host\<rparr>])
   \<and> fst (handleMessage (atTime 10 ''a'') 2
            (Msg (ADD_VIDEO ''ABCDEF'' (demoVideo ''v1'') ''u1'')) demoJoined) = demoPlaying
   \<and> map snd (snd (handleMessage (atTime 10 ''a'') 2
            (Msg (ADD_VIDEO ''ABCDEF'' (demoVideo ''v1'') ''u1'')) demoJoined))
       = [PLAY_VIDEO (Some ''v1''), PLAYLIST_UPDATE [demoVideoRow]]"
proof -
  let ?raw = "Msg (ADD_VIDEO ''ABCDEF'' (demoVideo ''v1'') ''u1'')"
  have h: "\<forall>rid uid r. ?raw \<noteq> Msg (JOIN rid uid r)"
    by simp
  have n: "\<forall>rid t p. ?raw \<noteq> Msg (SYNC_TIME rid t p)"
    by simp
  have c: "findClientRoom 2 (rooms demoJoined) = None"
      "findClientRoom 1 (rooms demoJoined)
         = Some (''ABCDEF'', [\<lparr>ws = 1, userId = ''u1'', role = host\<rparr>])"
    by (simp_all add: demoJoined_eq)
  have o: "snd (handleMessage (atTime 10 ''a'') 1 ?raw demoJoined)
             = [(1, PLAY_VIDEO (Some ''v1'')), (1, PLAYLIST_UPDATE [demoVideoRow])]"
    by (simp add: demoJoined_eq demoRoom_def demoVideo_def demoVideoRow_def
        atTime_def handleAddVideo_def helper_defs)
  from no_join_gate [OF h, of "atTime 10 ''a''" 2 demoJoined 1] n c o
  show ?thesis by (simp add: demoPlaying_def)
qed

subsection \<open>Cleaning up an empty room\<close>

text \<open>
  Claim C10 says that the disconnect of a room's last client deletes the client set, the
  playback state and the write-throttle timestamp of the room but keeps its cooldown
  timestamp, that the entry is never removed, and that therefore, when the room is
  re-joined within 3000 ms of a \<^verbatim>\<open>PLAY\<close> or \<^verbatim>\<open>PAUSE\<close>, the first \<^verbatim>\<open>SYNC_TIME\<close> after the
  re-join still has its \<^verbatim>\<open>isPlaying\<close> ignored. The last part needs the \<^verbatim>\<open>SYNC_TIME\<close>
  itself to fall within the 3000 ms. Counterexample: \<^verbatim>\<open>PAUSE\<close> at 100 ms, the only client
  leaves and re-joins at 200 ms (the state is seeded from the database, where the room
  still plays), and the first \<^verbatim>\<open>SYNC_TIME\<close>, at 5000 ms, has its \<^verbatim>\<open>isPlaying = false\<close>
  applied.
\<close>

theorem late_SYNC_TIME_after_rejoin_is_applied:
  "playPauseCooldown demoPaused ''ABCDEF'' = Some 100
   \<and> roomStates (handleDisconnect 1 demoPaused) ''ABCDEF'' = None
   \<and> roomStates demoRejoined ''ABCDEF''
       = Some \<lparr>currentVideoId = Some ''v1'', isPlaying = True, currentTime = 0\<rparr>
   \<and> roomStates (fst (handleMessage (atTime 5000 []) 3 (Msg (SYNC_TIME ''ABCDEF'' 12 False))
                        demoRejoined)) ''ABCDEF''
       = Some \<lparr>currentVideoId = Some ''v1'', isPlaying = False, currentTime = 12\<rparr>"
  by (simp add: demoPaused_eq demoRejoined_eq demoRoom_def atTime_def handleDisconnect_def
      handleSyncTime_def helper_defs PLAY_PAUSE_COOLDOWN_MS_def SYNC_THROTTLE_MS_def)

text \<open>
  Claim C10 as amended. A \<^verbatim>\<open>PLAY\<close> or \<^verbatim>\<open>PAUSE\<close> for a room is processed at \<open>t0\<close>; then a
  connection disconnects whose first room, in the order of the map, is that room, of
  which it is the only client. The disconnect deletes the client set, the playback state
  and the write-throttle timestamp of the room and keeps the cooldown timestamp \<open>t0\<close>.
  After a re-join (which seeds the state from the row of the room), a \<^verbatim>\<open>SYNC_TIME(t, p)\<close>
  processed at \<open>t4\<close> sets the position to \<open>t\<close>, and has its \<^verbatim>\<open>isPlaying\<close> ignored if
  \<open>t4 - t0 < 3000\<close> and applied otherwise. No message and no disconnect ever removes an
  entry of the cooldown map.
\<close>

theorem cooldown_survives_cleanup:
  assumes pp: "m = PLAY rid \<or> m = PAUSE rid"
    and s1: "s1 = fst (handleMessage \<lparr>now = t0, newId = i0\<rparr> w0 (Msg m) s0)"
    and last: "findClientRoom w (rooms s1) = Some (rid, [c])"
    and s2: "s2 = handleDisconnect w s1"
    and room: "findUnique s2 rid = Some room"
    and s3: "s3 = fst (handleMessage env3 w3 (Msg (JOIN rid uid r)) s2)"
    and s4: "s4 = fst (handleMessage \<lparr>now = t4, newId = i4\<rparr> w4 (Msg (SYNC_TIME rid t p)) s3)"
  shows "map_of (rooms s2) rid = None \<and> roomStates s2 rid = None \<and> lastDbWrite s2 rid = None
       \<and> playPauseCooldown s2 rid = Some t0
       \<and> roomStates s4 rid
           = Some \<lparr>currentVideoId = room_currentVideoId room,
                   isPlaying = (if t4 - t0 < 3000 then room_isPlaying room else p),
                   currentTime = t\<rparr>
       \<and> (\<forall>x e v raw. playPauseCooldown x rid \<noteq> None
             \<longrightarrow> playPauseCooldown (fst (handleMessage e v raw x)) rid \<noteq> None
               \<and> playPauseCooldown (handleDisconnect v x) rid \<noteq> None)"
proof -
  have c1: "playPauseCooldown s1 rid = Some t0"
    using pp s1 by (auto simp: cooldown_set)
  have d: "s2 = s1\<lparr>rooms := AList.delete rid (rooms s1),
                roomStates := (roomStates s1)(rid := None),
                lastDbWrite := (lastDbWrite s1)(rid := None)\<rparr>"
    unfolding s2 by (rule handleDisconnect_last [OF last])
  have g: "map_of (rooms s2) rid = None" "roomStates s2 rid = None" "lastDbWrite s2 rid = None"
    by (simp_all add: d AList.delete_conv')
  have c2: "playPauseCooldown s2 rid = Some t0"
    using c1 by (simp add: s2)
  have c3: "playPauseCooldown s3 rid = Some t0"
    using c2 by (simp add: s3 cooldown_frame)
  have st3: "roomStates s3 rid = Some \<lparr>currentVideoId = room_currentVideoId room,
      isPlaying = room_isPlaying room, currentTime = room_currentTime room\<rparr>"
    using room g by (simp add: s3 handleJoin_def Let_def)
  have st4: "roomStates s4 rid
           = Some \<lparr>currentVideoId = room_currentVideoId room,
                   isPlaying = (if t4 - t0 < 3000 then room_isPlaying room else p),
                   currentTime = t\<rparr>"
    using c3 st3 by (simp add: s4 handleSyncTime_def Let_def PLAY_PAUSE_COOLDOWN_MS_def)
  have keep: "\<forall>x e v raw. playPauseCooldown x rid \<noteq> None
             \<longrightarrow> playPauseCooldown (fst (handleMessage e v raw x)) rid \<noteq> None
               \<and> playPauseCooldown (handleDisconnect v x) rid \<noteq> None"
    using cooldown_retained by simp
  from g c2 st4 keep show ?thesis by blast
qed

theorem cooldown_survives_cleanup_witness:
  "findClientRoom 1 (rooms demoPaused)
     = Some (''ABCDEF'', [\<lparr>ws = 1, userId = ''u1'', role = host\<rparr>])
   \<and> playPauseCooldown (handleDisconnect 1 demoPaused) ''ABCDEF'' = Some 100
   \<and> roomStates (handleDisconnect 1 demoPaused) ''ABCDEF'' = None
   \<and> roomStates (fst (handleMessage \<lparr>now = 2000, newId = []\<rparr> 3 (Msg (SYNC_TIME ''ABCDEF'' 12 False))
                        demoRejoined)) ''ABCDEF''
       = Some \<lparr>currentVideoId = Some ''v1'', isPlaying = True, currentTime = 12\<rparr>"
proof -
  let ?room = "demoRoom\<lparr>room_currentVideoId := Some ''v1'', room_isPlaying := True\<rparr>"
  have h1: "PAUSE ''ABCDEF'' = PLAY ''ABCDEF'' \<or> PAUSE ''ABCDEF'' = PAUSE ''ABCDEF''"
    by simp
  have h2: "demoPaused = fst (handleMessage \<lparr>now = 100, newId = []\<rparr> 1 (Msg (PAUSE ''ABCDEF'')) demoPlaying)"
    by (simp add: demoPaused_def atTime_def)
  have h3: "findClientRoom 1 (rooms demoPaused)
              = Some (''ABCDEF'', [\<lparr>ws = 1, userId = ''u1'', role = host\<rparr>])"
    by (simp add: demoPaused_eq)
  have h5: "findUnique (handleDisconnect 1 demoPaused) ''ABCDEF'' = Some ?room"
    by (simp add: demoPaused_eq demoRoom_def findUnique_def)
  have h6: "demoRejoined = fst (handleMessage (atTime 200 []) 3 (Msg (JOIN ''ABCDEF'' ''u1'' host))
                         (handleDisconnect 1 demoPaused))"
    by (simp add: demoRejoined_def)
  from cooldown_survives_cleanup [OF h1 h2 h3 refl h5 h6 refl, of 2000 "[]" 3 12 False] h3
  show ?thesis by (simp add: demoRoom_def)
qed

end
